theory Spec2Isabelle
  imports Main "HOL-Library.AList"
begin

section \<open>Data model\<close>

text \<open>
  The staff hand-off core of the chat platform: \<^verbatim>\<open>InMemoryStaffStore\<close> and
  \<^verbatim>\<open>StaffService\<close> (staffService.ts), \<^verbatim>\<open>InMemoryQueueStore\<close> and
  \<^verbatim>\<open>QueueService\<close> (queueService.ts), \<^verbatim>\<open>SessionService\<close> (sessionService.ts) and
  the socket handlers of \<^verbatim>\<open>SocketService\<close> (socketService.ts).

  A JavaScript \<^verbatim>\<open>Map\<close> iterates in insertion order, and \<^verbatim>\<open>Map.set\<close> on a key that
  is present replaces the value where it stands. It is modelled as an association list:
  \<^verbatim>\<open>get\<close> is \<open>map_of\<close>, \<^verbatim>\<open>set\<close> is \<open>AList.update\<close> (replace in place, or append),
  \<^verbatim>\<open>values()\<close> is \<open>map snd\<close>.

  Every method is \<^verbatim>\<open>async\<close> over in-memory maps; it is modelled as running to
  completion, without another handler interleaving at its \<^verbatim>\<open>await\<close> points.
  \<^verbatim>\<open>new Date()\<close> is a parameter \<open>now\<close> of each operation (milliseconds, one reading
  per operation), \<^verbatim>\<open>uuidv4()\<close> a parameter \<open>uuid\<close>. Numbers are \<open>int\<close>: the counters
  start at the integer constants of \<^verbatim>\<open>createDefaultStaff\<close> and move by one.
  Fields that no operation below reads or writes (email, password, name, role and
  createdAt of a staff user; customerInfo and lastMessage of a queue item; id and metadata
  of a message) are left out of the records.
\<close>

type_synonym ('k, 'v) js_map = "('k \<times> 'v) list"

datatype staff_status = online | offline | busy | away

record StaffUser =
  id_staff :: string
  status_staff :: staff_status
  lastActive :: int
  maxConcurrentChats :: int
  currentChatCount :: int

datatype priority = low | medium | high

record ChatQueue =
  id_queue :: string
  sessionId_queue :: string
  priority_queue :: priority
  waitTime :: int
  createdAt_queue :: int

datatype assignment_status = assigned | active_assignment | completed

record StaffAssignment =
  sessionId_assignment :: string
  staffId_assignment :: string
  assignedAt :: int
  status_assignment :: assignment_status

section \<open>Staff directory (staffService.ts)\<close>

type_synonym staff_store = "(string, StaffUser) js_map"

definition findById :: "staff_store \<Rightarrow> string \<Rightarrow> StaffUser option" where
  "findById st i = map_of st i"

text \<open>
  \<^verbatim>\<open>updateStaff(id, updates)\<close>: the spread \<^verbatim>\<open>{ ...staff, ...updates, lastActive: new Date() }\<close>;
  the partial record \<^verbatim>\<open>updates\<close> is the function \<open>upd\<close> that overwrites its fields.
\<close>

definition updateStaff ::
  "staff_store \<Rightarrow> string \<Rightarrow> (StaffUser \<Rightarrow> StaffUser) \<Rightarrow> int \<Rightarrow> staff_store" where
  "updateStaff st i upd now =
     (case map_of st i of
        None \<Rightarrow> st
      | Some s \<Rightarrow> AList.update i ((upd s)\<lparr>lastActive := now\<rparr>) st)"

definition getAllStaff :: "staff_store \<Rightarrow> StaffUser list" where
  "getAllStaff st = map snd st"

definition getOnlineStaff :: "staff_store \<Rightarrow> StaffUser list" where
  "getOnlineStaff st = filter (\<lambda>s. status_staff s = online) (map snd st)"

definition updateStatus :: "staff_store \<Rightarrow> string \<Rightarrow> staff_status \<Rightarrow> int \<Rightarrow> staff_store" where
  "updateStatus st i status now = updateStaff st i (\<lambda>s. s\<lparr>status_staff := status\<rparr>) now"

definition getAvailableStaff :: "staff_store \<Rightarrow> StaffUser list" where
  "getAvailableStaff st =
     filter (\<lambda>s. status_staff s = online \<and> currentChatCount s < maxConcurrentChats s)
       (getOnlineStaff st)"

definition assignChat :: "staff_store \<Rightarrow> string \<Rightarrow> int \<Rightarrow> bool \<times> staff_store" where
  "assignChat st i now =
     (case findById st i of
        None \<Rightarrow> (False, st)
      | Some s \<Rightarrow>
          if currentChatCount s \<ge> maxConcurrentChats s then (False, st)
          else (True, updateStaff st i
                        (\<lambda>u. u\<lparr>currentChatCount := currentChatCount s + 1\<rparr>) now))"

definition unassignChat :: "staff_store \<Rightarrow> string \<Rightarrow> int \<Rightarrow> bool \<times> staff_store" where
  "unassignChat st i now =
     (case findById st i of
        None \<Rightarrow> (False, st)
      | Some s \<Rightarrow>
          (True, updateStaff st i
                   (\<lambda>u. u\<lparr>currentChatCount := max 0 (currentChatCount s - 1)\<rparr>) now))"

text \<open>A sequence of load calls on the directory, each with the clock reading it sees.\<close>

datatype load_call = AssignChat string int | UnassignChat string int

fun load_step :: "staff_store \<Rightarrow> load_call \<Rightarrow> staff_store" where
  "load_step st (AssignChat i now) = snd (assignChat st i now)"
| "load_step st (UnassignChat i now) = snd (unassignChat st i now)"

definition load_run :: "staff_store \<Rightarrow> load_call list \<Rightarrow> staff_store" where
  "load_run st cs = foldl load_step st cs"

text \<open>The capacity invariant of every staff member of the store.\<close>

definition load_ok :: "StaffUser \<Rightarrow> bool" where
  "load_ok s \<longleftrightarrow> 0 \<le> currentChatCount s \<and> currentChatCount s \<le> maxConcurrentChats s"

definition load_inv :: "staff_store \<Rightarrow> bool" where
  "load_inv st \<longleftrightarrow> list_all (\<lambda>p. load_ok (snd p)) st"

text \<open>The store as \<^verbatim>\<open>createDefaultStaff\<close> builds it: the key of an entry is its id.\<close>

definition store_wf :: "staff_store \<Rightarrow> bool" where
  "store_wf st \<longleftrightarrow> distinct (map fst st) \<and> list_all (\<lambda>p. id_staff (snd p) = fst p) st"

section \<open>Queue and assignment ledger (queueService.ts)\<close>

subsection \<open>InMemoryQueueStore\<close>

type_synonym queue_store = "(string, ChatQueue) js_map"
type_synonym assignment_store = "(string, StaffAssignment) js_map"

definition addToQueue_store ::
  "queue_store \<Rightarrow> string \<Rightarrow> priority \<Rightarrow> string \<Rightarrow> int \<Rightarrow> ChatQueue \<times> queue_store" where
  "addToQueue_store q sessionId prio uuid now =
     (let queueItem = \<lparr>id_queue = uuid, sessionId_queue = sessionId, priority_queue = prio,
                        waitTime = 0, createdAt_queue = now\<rparr>
      in (queueItem, AList.update (id_queue queueItem) queueItem q))"

text \<open>The loop over \<^verbatim>\<open>queue.entries()\<close>: the first entry of the session is deleted.\<close>

fun removeFromQueue_store :: "queue_store \<Rightarrow> string \<Rightarrow> bool \<times> queue_store" where
  "removeFromQueue_store [] sessionId = (False, [])"
| "removeFromQueue_store ((queueId, item) # rest) sessionId =
     (if sessionId_queue item = sessionId then (True, rest)
      else (fst (removeFromQueue_store rest sessionId),
            (queueId, item) # snd (removeFromQueue_store rest sessionId)))"

definition priorityOrder :: "priority \<Rightarrow> int" where
  "priorityOrder p = (case p of high \<Rightarrow> 3 | medium \<Rightarrow> 2 | low \<Rightarrow> 1)"

text \<open>The comparator handed to \<^verbatim>\<open>sort\<close> in \<^verbatim>\<open>getQueue\<close>.\<close>

definition compareQueue :: "ChatQueue \<Rightarrow> ChatQueue \<Rightarrow> int" where
  "compareQueue a b =
     (if priorityOrder (priority_queue a) \<noteq> priorityOrder (priority_queue b)
      then priorityOrder (priority_queue b) - priorityOrder (priority_queue a)
      else createdAt_queue a - createdAt_queue b)"

text \<open>
  \<^verbatim>\<open>Array.prototype.sort\<close> with a comparator is a stable sort (ECMAScript 2019): elements
  that compare equal keep their order. It is modelled as insertion sort from the right,
  which places an element before the elements it does not exceed.
\<close>

fun js_insert :: "('a \<Rightarrow> 'a \<Rightarrow> int) \<Rightarrow> 'a \<Rightarrow> 'a list \<Rightarrow> 'a list" where
  "js_insert cmp x [] = [x]"
| "js_insert cmp x (y # ys) =
     (if cmp x y \<le> 0 then x # y # ys else y # js_insert cmp x ys)"

definition js_sort :: "('a \<Rightarrow> 'a \<Rightarrow> int) \<Rightarrow> 'a list \<Rightarrow> 'a list" where
  "js_sort cmp xs = foldr (js_insert cmp) xs []"

definition getQueue_store :: "queue_store \<Rightarrow> int \<Rightarrow> ChatQueue list" where
  "getQueue_store q now =
     js_sort compareQueue
       (map (\<lambda>item. item\<lparr>waitTime := (now - createdAt_queue item) div 1000\<rparr>) (map snd q))"

definition getQueueLength :: "queue_store \<Rightarrow> nat" where
  "getQueueLength q = length q"

definition getAverageWaitTime :: "queue_store \<Rightarrow> int \<Rightarrow> int" where
  "getAverageWaitTime q now =
     (let items = map snd q in
      if length items = 0 then 0
      else (foldl (\<lambda>sum item. sum + (now - createdAt_queue item)) 0 items)
             div (int (length items) * 1000))"

definition assignSession ::
  "assignment_store \<Rightarrow> string \<Rightarrow> string \<Rightarrow> int \<Rightarrow> StaffAssignment \<times> assignment_store" where
  "assignSession asg sessionId staffId now =
     (let assignment = \<lparr>sessionId_assignment = sessionId, staffId_assignment = staffId,
                         assignedAt = now, status_assignment = assigned\<rparr>
      in (assignment, AList.update sessionId assignment asg))"

definition getAssignment :: "assignment_store \<Rightarrow> string \<Rightarrow> StaffAssignment option" where
  "getAssignment asg sessionId = map_of asg sessionId"

definition updateAssignmentStatus ::
  "assignment_store \<Rightarrow> string \<Rightarrow> assignment_status \<Rightarrow> bool \<times> assignment_store" where
  "updateAssignmentStatus asg sessionId status =
     (case map_of asg sessionId of
        None \<Rightarrow> (False, asg)
      | Some assignment \<Rightarrow>
          (True, AList.update sessionId (assignment\<lparr>status_assignment := status\<rparr>) asg))"

definition updateAssignment ::
  "assignment_store \<Rightarrow> string \<Rightarrow> (StaffAssignment \<Rightarrow> StaffAssignment)
     \<Rightarrow> bool \<times> assignment_store" where
  "updateAssignment asg sessionId updates =
     (case map_of asg sessionId of
        None \<Rightarrow> (False, asg)
      | Some assignment \<Rightarrow> (True, AList.update sessionId (updates assignment) asg))"

definition getStaffAssignments :: "assignment_store \<Rightarrow> string \<Rightarrow> StaffAssignment list" where
  "getStaffAssignments asg staffId =
     filter (\<lambda>assignment. staffId_assignment assignment = staffId) (map snd asg)"

subsection \<open>QueueService\<close>

text \<open>
  The service owns its store (queue and assignments) and holds the staff service; the
  state of the three maps is threaded through every method. A result object
  \<^verbatim>\<open>{ success, assignment?, error? }\<close> is a sum: \<open>Inl\<close> the error message, \<open>Inr\<close> the
  payload of a success.
\<close>

record QueueService =
  staffService :: staff_store
  queue :: queue_store
  assignments :: assignment_store

definition addToQueue ::
  "QueueService \<Rightarrow> string \<Rightarrow> priority \<Rightarrow> string \<Rightarrow> int \<Rightarrow> ChatQueue \<times> QueueService" where
  "addToQueue qs sessionId prio uuid now =
     (let r = addToQueue_store (queue qs) sessionId prio uuid now
      in (fst r, qs\<lparr>queue := snd r\<rparr>))"

definition removeFromQueue :: "QueueService \<Rightarrow> string \<Rightarrow> bool \<times> QueueService" where
  "removeFromQueue qs sessionId =
     (let r = removeFromQueue_store (queue qs) sessionId
      in (fst r, qs\<lparr>queue := snd r\<rparr>))"

definition getQueue :: "QueueService \<Rightarrow> int \<Rightarrow> ChatQueue list" where
  "getQueue qs now = getQueue_store (queue qs) now"

record QueueStats =
  length_stats :: nat
  averageWaitTime :: int
  priorityBreakdown_high :: nat
  priorityBreakdown_medium :: nat
  priorityBreakdown_low :: nat

definition getQueueStats :: "QueueService \<Rightarrow> int \<Rightarrow> QueueStats" where
  "getQueueStats qs now =
     (let q = getQueue_store (queue qs) now in
      \<lparr>length_stats = getQueueLength (queue qs),
       averageWaitTime = getAverageWaitTime (queue qs) now,
       priorityBreakdown_high = length (filter (\<lambda>item. priority_queue item = high) q),
       priorityBreakdown_medium = length (filter (\<lambda>item. priority_queue item = medium) q),
       priorityBreakdown_low = length (filter (\<lambda>item. priority_queue item = low) q)\<rparr>)"

text \<open>
  \<^verbatim>\<open>availableStaff.reduce((best, current) => ...)\<close> without an initial value starts at
  the first element; the array is not empty where it is called.
\<close>

definition leastLoaded :: "StaffUser \<Rightarrow> StaffUser list \<Rightarrow> StaffUser" where
  "leastLoaded first others =
     foldl (\<lambda>best current.
              if currentChatCount current < currentChatCount best then current else best)
       first others"

definition assignNextChat ::
  "QueueService \<Rightarrow> int \<Rightarrow> (string + StaffAssignment) \<times> QueueService" where
  "assignNextChat qs now =
     (case getQueue_store (queue qs) now of
        [] \<Rightarrow> (Inl ''No chats in queue'', qs)
      | nextChat # _ \<Rightarrow>
          (case getAvailableStaff (staffService qs) of
             [] \<Rightarrow> (Inl ''No available staff'', qs)
           | first # others \<Rightarrow>
               (let bestStaff = leastLoaded first others;
                    r = assignChat (staffService qs) (id_staff bestStaff) now
                in if \<not> fst r
                   then (Inl ''Failed to assign chat to staff'', qs\<lparr>staffService := snd r\<rparr>)
                   else
                     (let a = assignSession (assignments qs) (sessionId_queue nextChat)
                                (id_staff bestStaff) now
                      in (Inr (fst a),
                          qs\<lparr>staffService := snd r, assignments := snd a,
                             queue := snd (removeFromQueue_store (queue qs)
                                             (sessionId_queue nextChat))\<rparr>)))))"

definition assignChatToStaff ::
  "QueueService \<Rightarrow> string \<Rightarrow> string \<Rightarrow> int \<Rightarrow> (string + StaffAssignment) \<times> QueueService" where
  "assignChatToStaff qs sessionId staffId now =
     (case find (\<lambda>s. id_staff s = staffId) (getAllStaff (staffService qs)) of
        None \<Rightarrow> (Inl ''Staff member not found'', qs)
      | Some targetStaff \<Rightarrow>
          if currentChatCount targetStaff \<ge> maxConcurrentChats targetStaff
          then (Inl ''Staff member at maximum capacity'', qs)
          else
            (let r = assignChat (staffService qs) staffId now
             in if \<not> fst r
                then (Inl ''Failed to assign chat to staff'', qs\<lparr>staffService := snd r\<rparr>)
                else
                  (let a = assignSession (assignments qs) sessionId staffId now
                   in (Inr (fst a),
                       qs\<lparr>staffService := snd r, assignments := snd a,
                          queue := snd (removeFromQueue_store (queue qs) sessionId)\<rparr>))))"

definition completeAssignment :: "QueueService \<Rightarrow> string \<Rightarrow> int \<Rightarrow> bool \<times> QueueService" where
  "completeAssignment qs sessionId now =
     (case getAssignment (assignments qs) sessionId of
        None \<Rightarrow> (False, qs)
      | Some assignment \<Rightarrow>
          (True,
           qs\<lparr>assignments := snd (updateAssignmentStatus (assignments qs) sessionId completed),
              staffService :=
                snd (unassignChat (staffService qs) (staffId_assignment assignment) now)\<rparr>))"

definition transferChat ::
  "QueueService \<Rightarrow> string \<Rightarrow> string \<Rightarrow> string \<Rightarrow> int \<Rightarrow> (string + unit) \<times> QueueService" where
  "transferChat qs sessionId fromStaffId toStaffId now =
     (case getAssignment (assignments qs) sessionId of
        None \<Rightarrow> (Inl ''Assignment not found or staff mismatch'', qs)
      | Some assignment \<Rightarrow>
          if staffId_assignment assignment \<noteq> fromStaffId
          then (Inl ''Assignment not found or staff mismatch'', qs)
          else
            (case find (\<lambda>s. id_staff s = toStaffId) (getAllStaff (staffService qs)) of
               None \<Rightarrow> (Inl ''Target staff member not found'', qs)
             | Some staff \<Rightarrow>
                 if currentChatCount staff \<ge> maxConcurrentChats staff
                 then (Inl ''Target staff member at maximum capacity'', qs)
                 else
                   (let st1 = snd (unassignChat (staffService qs) fromStaffId now);
                        r = assignChat st1 toStaffId now
                    in if \<not> fst r
                       then (Inl ''Failed to assign to new staff member'',
                             qs\<lparr>staffService := snd (assignChat (snd r) fromStaffId now)\<rparr>)
                       else
                         (Inr (),
                          qs\<lparr>staffService := snd r,
                             assignments :=
                               snd (updateAssignment (assignments qs) sessionId
                                      (\<lambda>a. a\<lparr>staffId_assignment := toStaffId,
                                              assignedAt := now\<rparr>))\<rparr>))))"

definition checkAndAssign :: "QueueService \<Rightarrow> int \<Rightarrow> QueueService" where
  "checkAndAssign qs now =
     (if length_stats (getQueueStats qs now) > 0
      then (if length (getAvailableStaff (staffService qs)) > 0
            then snd (assignNextChat qs now) else qs)
      else qs)"

section \<open>Sessions (sessionService.ts)\<close>

datatype message_role = user | assistant | system_role

record ChatMessage =
  sessionId_message :: string
  content :: string
  role_message :: message_role
  timestamp :: int

datatype session_status = active | resolved | escalated | waiting_for_staff | with_staff

record ChatSession =
  id_session :: string
  messages :: "ChatMessage list"
  status_session :: session_status
  updatedAt :: int

type_synonym session_store = "(string, ChatSession) js_map"

definition getSession :: "session_store \<Rightarrow> string \<Rightarrow> ChatSession option" where
  "getSession st sessionId = map_of st sessionId"

definition addMessage_store :: "session_store \<Rightarrow> string \<Rightarrow> ChatMessage \<Rightarrow> int \<Rightarrow> session_store" where
  "addMessage_store st sessionId message now =
     (case map_of st sessionId of
        None \<Rightarrow> st
      | Some session \<Rightarrow>
          AList.update sessionId
            (session\<lparr>messages := messages session @ [message], updatedAt := now\<rparr>) st)"

definition addMessage ::
  "session_store \<Rightarrow> string \<Rightarrow> string \<Rightarrow> message_role \<Rightarrow> int \<Rightarrow> ChatMessage \<times> session_store" where
  "addMessage st sessionId text role now =
     (let message = \<lparr>sessionId_message = sessionId, content = text, role_message = role,
                      timestamp = now\<rparr>
      in (message, addMessage_store st sessionId message now))"

definition updateSessionStatus ::
  "session_store \<Rightarrow> string \<Rightarrow> session_status \<Rightarrow> int \<Rightarrow> session_store" where
  "updateSessionStatus st sessionId status now =
     (case getSession st sessionId of
        None \<Rightarrow> st
      | Some session \<Rightarrow>
          AList.update (id_session session)
            (session\<lparr>status_session := status, updatedAt := now\<rparr>) st)"

definition role_name :: "message_role \<Rightarrow> string" where
  "role_name r = (case r of user \<Rightarrow> ''user'' | assistant \<Rightarrow> ''assistant''
                  | system_role \<Rightarrow> ''system'')"

text \<open>\<^verbatim>\<open>messages.slice(-limit)\<close>: the last \<open>limit\<close> elements; \<^verbatim>\<open>slice(-0)\<close> is the whole array.\<close>

definition slice_last :: "nat \<Rightarrow> 'a list \<Rightarrow> 'a list" where
  "slice_last limit xs = (if limit = 0 then xs else drop (length xs - limit) xs)"

definition getConversationHistory :: "session_store \<Rightarrow> string \<Rightarrow> nat \<Rightarrow> string list" where
  "getConversationHistory st sessionId limit =
     (case getSession st sessionId of
        None \<Rightarrow> []
      | Some session \<Rightarrow>
          map (\<lambda>msg. role_name (role_message msg) @ '': '' @ content msg)
            (slice_last limit (messages session)))"

section \<open>Real-time coordinator (socketService.ts)\<close>

text \<open>
  A handler is a function from the state of the services to their state after the event.
  What leaves the process is appended to a trace: the events emitted on the transport
  (\<^verbatim>\<open>io.to(room).emit\<close>, \<^verbatim>\<open>socket.to(room).emit\<close>, \<^verbatim>\<open>socket.emit\<close>) and the calls of the
  two collaborators, \<^verbatim>\<open>knowledgeBaseService.getRelevantContext\<close> and
  \<^verbatim>\<open>aiService.generateResponse\<close>. The collaborators are parameters: \<open>kb\<close> returns the
  snippets (it catches its own failures), \<open>ai\<close> returns the content of the response or
  \<open>None\<close> when \<^verbatim>\<open>generateResponse\<close> throws. The payload of \<^verbatim>\<open>queue_updated\<close> (the
  statistics) is not recorded.
\<close>

datatype socket_role = staff | customer

record Socket =
  id_socket :: string
  role_socket :: "socket_role option"
  staffId_socket :: "string option"
  sessionId_socket :: "string option"

datatype target = IoTo string | SocketTo string | SocketEmit

datatype event =
    new_message string ChatMessage
  | staff_message_sent string "string option" string
  | staff_status_changed string staff_status
  | chat_assigned string StaffAssignment
  | staff_joined string
  | assignment_failed string
  | chat_completed
  | chat_completed_confirmed string
  | added_to_queue
  | queue_updated

datatype effect =
    Emit target event
  | GetRelevantContext string "string list"
  | GenerateResponse "ChatMessage list" "string list"

record SocketService =
  queueService :: QueueService
  sessionService :: session_store
  staffSockets :: "(string, string) js_map"
  trace :: "effect list"

definition session_room :: "string \<Rightarrow> string" where
  "session_room sessionId = ''session_'' @ sessionId"

text \<open>Truthiness of an optional string: \<^verbatim>\<open>undefined\<close> and \<^verbatim>\<open>''\<close> are falsy.\<close>

definition truthy :: "string option \<Rightarrow> bool" where
  "truthy x = (case x of None \<Rightarrow> False | Some v \<Rightarrow> v \<noteq> [])"

text \<open>The number of calls of \<^verbatim>\<open>aiService.generateResponse\<close> recorded in a trace.\<close>

fun is_GenerateResponse :: "effect \<Rightarrow> bool" where
  "is_GenerateResponse (GenerateResponse ms ctx) = True"
| "is_GenerateResponse e = False"

definition ai_invocations :: "effect list \<Rightarrow> nat" where
  "ai_invocations tr = length (filter is_GenerateResponse tr)"

definition emit :: "effect list \<Rightarrow> SocketService \<Rightarrow> SocketService" where
  "emit es ss = ss\<lparr>trace := trace ss @ es\<rparr>"

definition staff_status_update ::
  "Socket \<Rightarrow> staff_status \<Rightarrow> int \<Rightarrow> SocketService \<Rightarrow> SocketService" where
  "staff_status_update socket status now ss =
     (case staffId_socket socket of
        None \<Rightarrow> ss
      | Some staffId \<Rightarrow>
          if role_socket socket = Some staff \<and> staffId \<noteq> [] then
            emit [Emit (IoTo ''staff'') (staff_status_changed staffId status)]
              (ss\<lparr>queueService := (queueService ss)
                    \<lparr>staffService :=
                       updateStatus (staffService (queueService ss)) staffId status now\<rparr>\<rparr>)
          else ss)"

definition apology :: string where
  "apology = ''Sorry, I encountered an error processing your message. Please try again.''"

definition generate_ai_response ::
  "(ChatMessage list \<Rightarrow> string list \<Rightarrow> string option) \<Rightarrow> (string \<Rightarrow> string list \<Rightarrow> string list)
     \<Rightarrow> string \<Rightarrow> string \<Rightarrow> int \<Rightarrow> SocketService \<Rightarrow> SocketService" where
  "generate_ai_response ai kb sessionId text now ss =
     (case getSession (sessionService ss) sessionId of
        None \<Rightarrow> ss
      | Some session \<Rightarrow>
          (let conversationHistory = getConversationHistory (sessionService ss) sessionId 5;
               knowledgeContext = kb text conversationHistory;
               ss1 = emit [GetRelevantContext text conversationHistory,
                           GenerateResponse (messages session) knowledgeContext] ss
           in case ai (messages session) knowledgeContext of
                Some aiContent \<Rightarrow>
                  (let r = addMessage (sessionService ss1) sessionId aiContent assistant now
                   in emit [Emit (IoTo (session_room sessionId))
                              (new_message sessionId (fst r))]
                        (ss1\<lparr>sessionService := snd r\<rparr>))
              | None \<Rightarrow>
                  (let r = addMessage (sessionService ss1) sessionId apology assistant now
                   in emit [Emit (IoTo (session_room sessionId))
                              (new_message sessionId (fst r))]
                        (ss1\<lparr>sessionService := snd r\<rparr>))))"

definition send_message ::
  "(ChatMessage list \<Rightarrow> string list \<Rightarrow> string option) \<Rightarrow> (string \<Rightarrow> string list \<Rightarrow> string list)
     \<Rightarrow> Socket \<Rightarrow> string \<Rightarrow> string \<Rightarrow> socket_role \<Rightarrow> int \<Rightarrow> SocketService \<Rightarrow> SocketService" where
  "send_message ai kb socket sessionId text role now ss =
     (let messageRole = (if role = staff then assistant else user);
          r = addMessage (sessionService ss) sessionId text messageRole now;
          ss1 = emit [Emit (IoTo (session_room sessionId)) (new_message sessionId (fst r))]
                  (ss\<lparr>sessionService := snd r\<rparr>);
          ss2 = (if role = customer then generate_ai_response ai kb sessionId text now ss1
                 else ss1)
      in if role = staff
         then emit [Emit (SocketTo ''staff'')
                      (staff_message_sent sessionId (staffId_socket socket) text)] ss2
         else ss2)"

definition assign_chat ::
  "Socket \<Rightarrow> string \<Rightarrow> string option \<Rightarrow> int \<Rightarrow> SocketService \<Rightarrow> SocketService" where
  "assign_chat socket sessionId staffId now ss =
     (if role_socket socket \<noteq> Some staff then ss
      else
        (let result = (case staffId of
                         None \<Rightarrow> assignNextChat (queueService ss) now
                       | Some i \<Rightarrow>
                           if i \<noteq> [] then assignChatToStaff (queueService ss) sessionId i now
                           else assignNextChat (queueService ss) now)
         in case fst result of
              Inr assignment \<Rightarrow>
                emit ((case map_of (staffSockets ss) (staffId_assignment assignment) of
                         None \<Rightarrow> []
                       | Some staffSocketId \<Rightarrow>
                           if staffSocketId \<noteq> []
                           then [Emit (IoTo staffSocketId) (chat_assigned sessionId assignment)]
                           else [])
                      @ [Emit (IoTo (session_room sessionId))
                           (staff_joined (staffId_assignment assignment)),
                         Emit (IoTo ''staff'') queue_updated])
                  (ss\<lparr>queueService := snd result,
                      sessionService :=
                        updateSessionStatus (sessionService ss) sessionId with_staff now\<rparr>)
            | Inl error \<Rightarrow>
                emit [Emit SocketEmit (assignment_failed error)]
                  (ss\<lparr>queueService := snd result\<rparr>)))"

definition complete_chat :: "Socket \<Rightarrow> string \<Rightarrow> int \<Rightarrow> SocketService \<Rightarrow> SocketService" where
  "complete_chat socket sessionId now ss =
     (if role_socket socket \<noteq> Some staff then ss
      else
        emit [Emit (IoTo (session_room sessionId)) chat_completed,
              Emit SocketEmit (chat_completed_confirmed sessionId),
              Emit (IoTo ''staff'') queue_updated]
          (ss\<lparr>queueService := snd (completeAssignment (queueService ss) sessionId now),
              sessionService :=
                updateSessionStatus (sessionService ss) sessionId resolved now\<rparr>))"

definition request_staff ::
  "Socket \<Rightarrow> string \<Rightarrow> priority option \<Rightarrow> string \<Rightarrow> int \<Rightarrow> SocketService \<Rightarrow> SocketService" where
  "request_staff socket sessionId prio uuid now ss =
     (let qs1 = snd (addToQueue (queueService ss) sessionId
                       (case prio of None \<Rightarrow> medium | Some p \<Rightarrow> p) uuid now);
          ss1 = emit [Emit SocketEmit added_to_queue, Emit (IoTo ''staff'') queue_updated]
                  (ss\<lparr>queueService := qs1,
                      sessionService :=
                        updateSessionStatus (sessionService ss) sessionId
                          waiting_for_staff now\<rparr>)
      in ss1\<lparr>queueService := checkAndAssign qs1 now\<rparr>)"

section \<open>Example states\<close>

text \<open>Concrete states on which the theorems below are evaluated.\<close>

definition ex_staff_full :: staff_store where
  "ex_staff_full =
     [(''A'', \<lparr>id_staff = ''A'', status_staff = online, lastActive = 0,
               maxConcurrentChats = 2, currentChatCount = 2\<rparr>),
      (''B'', \<lparr>id_staff = ''B'', status_staff = online, lastActive = 0,
               maxConcurrentChats = 1, currentChatCount = 0\<rparr>)]"

definition ex_load_calls :: "load_call list" where
  "ex_load_calls = [AssignChat ''B'' 1, AssignChat ''B'' 2, UnassignChat ''A'' 3]"

definition ai_ok :: "ChatMessage list \<Rightarrow> string list \<Rightarrow> string option" where
  "ai_ok ms ctx = Some ''How can I help?''"

definition kb_empty :: "string \<Rightarrow> string list \<Rightarrow> string list" where
  "kb_empty query history = []"

definition customer_socket :: Socket where
  "customer_socket = \<lparr>id_socket = ''c1'', role_socket = Some customer,
                        staffId_socket = None, sessionId_socket = Some ''S1''\<rparr>"

definition staff_socket :: Socket where
  "staff_socket = \<lparr>id_socket = ''sockA'', role_socket = Some staff,
                     staffId_socket = Some ''A'', sessionId_socket = None\<rparr>"

text \<open>Session S1 is held by staff member A; its status is \<open>with_staff\<close>.\<close>

definition ss_with_staff :: SocketService where
  "ss_with_staff =
     \<lparr>queueService =
        \<lparr>staffService =
           [(''A'', \<lparr>id_staff = ''A'', status_staff = online, lastActive = 0,
                     maxConcurrentChats = 2, currentChatCount = 1\<rparr>)],
         queue = [],
         assignments =
           [(''S1'', \<lparr>sessionId_assignment = ''S1'', staffId_assignment = ''A'',
                      assignedAt = 0, status_assignment = assigned\<rparr>)]\<rparr>,
      sessionService =
        [(''S1'', \<lparr>id_session = ''S1'', messages = [], status_session = with_staff,
                   updatedAt = 0\<rparr>)],
      staffSockets = [(''A'', ''sockA'')],
      trace = []\<rparr>"

text \<open>Session S1 is handled by the AI; staff member A is offline and free.\<close>

definition ss_active :: SocketService where
  "ss_active =
     \<lparr>queueService =
        \<lparr>staffService =
           [(''A'', \<lparr>id_staff = ''A'', status_staff = offline, lastActive = 0,
                     maxConcurrentChats = 2, currentChatCount = 0\<rparr>)],
         queue = [],
         assignments = []\<rparr>,
      sessionService =
        [(''S1'', \<lparr>id_session = ''S1'', messages = [], status_session = active,
                   updatedAt = 0\<rparr>)],
      staffSockets = [(''A'', ''sockA'')],
      trace = []\<rparr>"

text \<open>Staff member A holds session S1; staff member B is at capacity.\<close>

definition qs_target_full :: QueueService where
  "qs_target_full =
     \<lparr>staffService =
        [(''A'', \<lparr>id_staff = ''A'', status_staff = online, lastActive = 0,
                  maxConcurrentChats = 2, currentChatCount = 1\<rparr>),
         (''B'', \<lparr>id_staff = ''B'', status_staff = online, lastActive = 0,
                  maxConcurrentChats = 1, currentChatCount = 1\<rparr>)],
      queue = [],
      assignments =
        [(''S1'', \<lparr>sessionId_assignment = ''S1'', staffId_assignment = ''A'',
                   assignedAt = 0, status_assignment = assigned\<rparr>)]\<rparr>"

text \<open>Staff member A holds sessions S1 and S2; staff member B is free.\<close>

definition qs_two_chats :: QueueService where
  "qs_two_chats =
     \<lparr>staffService =
        [(''A'', \<lparr>id_staff = ''A'', status_staff = online, lastActive = 0,
                  maxConcurrentChats = 5, currentChatCount = 2\<rparr>),
         (''B'', \<lparr>id_staff = ''B'', status_staff = online, lastActive = 0,
                  maxConcurrentChats = 1, currentChatCount = 0\<rparr>)],
      queue = [],
      assignments =
        [(''S1'', \<lparr>sessionId_assignment = ''S1'', staffId_assignment = ''A'',
                   assignedAt = 0, status_assignment = assigned\<rparr>),
         (''S2'', \<lparr>sessionId_assignment = ''S2'', staffId_assignment = ''A'',
                   assignedAt = 0, status_assignment = assigned\<rparr>)]\<rparr>"

text \<open>The load of a staff member, and one or two completions in a row.\<close>

definition load_of :: "QueueService \<Rightarrow> string \<Rightarrow> int option" where
  "load_of qs i = map_option currentChatCount (findById (staffService qs) i)"

definition complete_once :: "QueueService \<Rightarrow> string \<Rightarrow> int \<Rightarrow> QueueService" where
  "complete_once qs sessionId now = snd (completeAssignment qs sessionId now)"

definition complete_twice :: "QueueService \<Rightarrow> string \<Rightarrow> int \<Rightarrow> int \<Rightarrow> QueueService" where
  "complete_twice qs sessionId now now' =
     snd (completeAssignment (snd (completeAssignment qs sessionId now)) sessionId now')"

text \<open>
  A sequence of calls of the queue service, each with the clock reading (and the fresh
  identifier) it sees; \<open>service_run\<close> is the state after the sequence.
\<close>

datatype service_call =
    AddToQueue string priority string int
  | RemoveFromQueue string
  | AssignNextChat int
  | AssignChatToStaff string string int
  | CompleteAssignment string int
  | TransferChat string string string int
  | CheckAndAssign int

fun service_step :: "QueueService \<Rightarrow> service_call \<Rightarrow> QueueService" where
  "service_step qs (AddToQueue sessionId prio uuid now) =
     snd (addToQueue qs sessionId prio uuid now)"
| "service_step qs (RemoveFromQueue sessionId) = snd (removeFromQueue qs sessionId)"
| "service_step qs (AssignNextChat now) = snd (assignNextChat qs now)"
| "service_step qs (AssignChatToStaff sessionId staffId now) =
     snd (assignChatToStaff qs sessionId staffId now)"
| "service_step qs (CompleteAssignment sessionId now) =
     snd (completeAssignment qs sessionId now)"
| "service_step qs (TransferChat sessionId fromStaffId toStaffId now) =
     snd (transferChat qs sessionId fromStaffId toStaffId now)"
| "service_step qs (CheckAndAssign now) = checkAndAssign qs now"

definition service_run :: "QueueService \<Rightarrow> service_call list \<Rightarrow> QueueService" where
  "service_run qs cs = foldl service_step qs cs"

text \<open>
  The ledger as the service builds it: the key of an entry is the session of the
  assignment. \<open>open_assignments\<close> are the non-completed assignments of a session,
  \<open>queued\<close> the queue entries of a session.
\<close>

definition ledger_wf :: "assignment_store \<Rightarrow> bool" where
  "ledger_wf asg \<longleftrightarrow>
     distinct (map fst asg) \<and> list_all (\<lambda>p. sessionId_assignment (snd p) = fst p) asg"

definition open_assignments :: "QueueService \<Rightarrow> string \<Rightarrow> StaffAssignment list" where
  "open_assignments qs sessionId =
     filter (\<lambda>a. sessionId_assignment a = sessionId \<and> status_assignment a \<noteq> completed)
       (map snd (assignments qs))"

definition queued :: "QueueService \<Rightarrow> string \<Rightarrow> ChatQueue list" where
  "queued qs sessionId =
     filter (\<lambda>item. sessionId_queue item = sessionId) (map snd (queue qs))"

text \<open>An empty queue with staff member A online and free.\<close>

definition qs_idle :: QueueService where
  "qs_idle =
     \<lparr>staffService =
        [(''A'', \<lparr>id_staff = ''A'', status_staff = online, lastActive = 0,
                  maxConcurrentChats = 10, currentChatCount = 0\<rparr>)],
      queue = [],
      assignments = []\<rparr>"

text \<open>Session S1 waits in the queue; staff member A is offline.\<close>

definition qs_queued :: QueueService where
  "qs_queued =
     \<lparr>staffService =
        [(''A'', \<lparr>id_staff = ''A'', status_staff = offline, lastActive = 0,
                  maxConcurrentChats = 10, currentChatCount = 0\<rparr>)],
      queue = [(''q1'', \<lparr>id_queue = ''q1'', sessionId_queue = ''S1'',
                        priority_queue = medium, waitTime = 0, createdAt_queue = 1\<rparr>)],
      assignments = []\<rparr>"

text \<open>
  Dequeuing repeatedly: \<^verbatim>\<open>assignNextChat\<close> once per clock reading; the sessions of the
  assignments it returns, in order, up to the first failure.
\<close>

fun dequeue_sessions :: "int list \<Rightarrow> QueueService \<Rightarrow> string list" where
  "dequeue_sessions [] qs = []"
| "dequeue_sessions (now # later) qs =
     (case fst (assignNextChat qs now) of
        Inl error \<Rightarrow> []
      | Inr a \<Rightarrow> sessionId_assignment a # dequeue_sessions later (snd (assignNextChat qs now)))"

text \<open>
  Three sessions wait, two of them with high priority; of the four staff members A, B
  and D are online and below capacity, B and D with the smallest load.
\<close>

definition qs_mixed :: QueueService where
  "qs_mixed =
     \<lparr>staffService =
        [(''A'', \<lparr>id_staff = ''A'', status_staff = online, lastActive = 0,
                  maxConcurrentChats = 3, currentChatCount = 2\<rparr>),
         (''B'', \<lparr>id_staff = ''B'', status_staff = online, lastActive = 0,
                  maxConcurrentChats = 5, currentChatCount = 1\<rparr>),
         (''C'', \<lparr>id_staff = ''C'', status_staff = busy, lastActive = 0,
                  maxConcurrentChats = 5, currentChatCount = 0\<rparr>),
         (''D'', \<lparr>id_staff = ''D'', status_staff = online, lastActive = 0,
                  maxConcurrentChats = 4, currentChatCount = 1\<rparr>)],
      queue =
        [(''q1'', \<lparr>id_queue = ''q1'', sessionId_queue = ''S1'',
                   priority_queue = low, waitTime = 0, createdAt_queue = 1000\<rparr>),
         (''q2'', \<lparr>id_queue = ''q2'', sessionId_queue = ''S2'',
                   priority_queue = high, waitTime = 0, createdAt_queue = 3000\<rparr>),
         (''q3'', \<lparr>id_queue = ''q3'', sessionId_queue = ''S3'',
                   priority_queue = high, waitTime = 0, createdAt_queue = 2000\<rparr>)],
      assignments = []\<rparr>"

text \<open>
  The session store as \<^verbatim>\<open>createSession\<close> builds it: the key of an entry is the id of
  the session. \<open>status_of\<close> reads the status of a session, \<open>queued_sessions\<close> the
  sessions of the queue entries in insertion order, \<open>available_ids\<close> the candidate
  pool of auto-assignment.
\<close>

definition session_wf :: "session_store \<Rightarrow> bool" where
  "session_wf st \<longleftrightarrow> list_all (\<lambda>p. id_session (snd p) = fst p) st"

definition status_of :: "SocketService \<Rightarrow> string \<Rightarrow> session_status option" where
  "status_of ss sessionId =
     map_option status_session (getSession (sessionService ss) sessionId)"

definition queued_sessions :: "SocketService \<Rightarrow> string list" where
  "queued_sessions ss = map (\<lambda>p. sessionId_queue (snd p)) (queue (queueService ss))"

definition available_ids :: "SocketService \<Rightarrow> string list" where
  "available_ids ss = map id_staff (getAvailableStaff (staffService (queueService ss)))"

text \<open>
  The escalation scenario: the customer of session S1 requests staff while staff member
  A is offline (\<open>ss_waiting\<close>); then A sets its status to online (\<open>ss_online\<close>).
\<close>

definition ss_waiting :: SocketService where
  "ss_waiting = request_staff customer_socket ''S1'' None ''q1'' 1 ss_active"

definition ss_online :: SocketService where
  "ss_online = staff_status_update staff_socket online 2 ss_waiting"

text \<open>
  Staff member A (capacity 1) holds session S0 while sessions S1 (high) and S2 (low)
  wait in the queue (\<open>ss_two_waiting\<close>); then A completes S0 (\<open>ss_after_complete\<close>).
\<close>

definition ss_two_waiting :: SocketService where
  "ss_two_waiting =
     \<lparr>queueService =
        \<lparr>staffService =
           [(''A'', \<lparr>id_staff = ''A'', status_staff = online, lastActive = 0,
                     maxConcurrentChats = 1, currentChatCount = 1\<rparr>)],
         queue =
           [(''q1'', \<lparr>id_queue = ''q1'', sessionId_queue = ''S1'',
                      priority_queue = high, waitTime = 0, createdAt_queue = 1\<rparr>),
            (''q2'', \<lparr>id_queue = ''q2'', sessionId_queue = ''S2'',
                      priority_queue = low, waitTime = 0, createdAt_queue = 2\<rparr>)],
         assignments =
           [(''S0'', \<lparr>sessionId_assignment = ''S0'', staffId_assignment = ''A'',
                      assignedAt = 0, status_assignment = assigned\<rparr>)]\<rparr>,
      sessionService =
        [(''S0'', \<lparr>id_session = ''S0'', messages = [], status_session = with_staff,
                   updatedAt = 0\<rparr>),
         (''S1'', \<lparr>id_session = ''S1'', messages = [], status_session = waiting_for_staff,
                   updatedAt = 1\<rparr>),
         (''S2'', \<lparr>id_session = ''S2'', messages = [], status_session = waiting_for_staff,
                   updatedAt = 2\<rparr>)],
      staffSockets = [(''A'', ''sockA'')],
      trace = []\<rparr>"

definition ss_after_complete :: SocketService where
  "ss_after_complete = complete_chat staff_socket ''S0'' 9 ss_two_waiting"

text \<open>Session S1 was held by staff member A and is completed; staff member B is free.\<close>

definition qs_completed :: QueueService where
  "qs_completed =
     \<lparr>staffService =
        [(''A'', \<lparr>id_staff = ''A'', status_staff = online, lastActive = 0,
                  maxConcurrentChats = 2, currentChatCount = 1\<rparr>),
         (''B'', \<lparr>id_staff = ''B'', status_staff = online, lastActive = 0,
                  maxConcurrentChats = 1, currentChatCount = 0\<rparr>)],
      queue = [],
      assignments =
        [(''S1'', \<lparr>sessionId_assignment = ''S1'', staffId_assignment = ''A'',
                   assignedAt = 0, status_assignment = completed\<rparr>)]\<rparr>"

section \<open>Lemmas\<close>

subsection \<open>Staff directory\<close>

lemma set_update_subset:
  "set (AList.update k v al) \<subseteq> insert (k, v) (set al)"
  by (induct al) auto

lemma load_inv_update:
  "load_inv st \<Longrightarrow> load_ok v \<Longrightarrow> load_inv (AList.update k v st)"
  unfolding load_inv_def list_all_iff
  using set_update_subset [of k v st] by auto

lemma load_inv_lookup:
  "load_inv st \<Longrightarrow> map_of st i = Some s \<Longrightarrow> load_ok s"
  unfolding load_inv_def list_all_iff
  by (metis map_of_SomeD snd_conv)

lemma load_inv_assignChat:
  "load_inv st \<Longrightarrow> load_inv (snd (assignChat st i now))"
  by (auto simp: assignChat_def findById_def updateStaff_def load_ok_def
      split: option.splits intro!: load_inv_update dest: load_inv_lookup)

lemma load_inv_unassignChat:
  "load_inv st \<Longrightarrow> load_inv (snd (unassignChat st i now))"
  by (auto simp: unassignChat_def findById_def updateStaff_def load_ok_def
      split: option.splits intro!: load_inv_update dest: load_inv_lookup)

lemma load_inv_step:
  "load_inv st \<Longrightarrow> load_inv (load_step st c)"
  by (cases c) (simp_all add: load_inv_assignChat load_inv_unassignChat)

lemma load_inv_run:
  "load_inv st \<Longrightarrow> load_inv (load_run st cs)"
  unfolding load_run_def
  by (induction cs arbitrary: st) (simp_all add: load_inv_step)

subsection \<open>Sessions and the trace\<close>

lemma getSession_addMessage:
  "getSession (snd (addMessage st sessionId text role now)) k = None \<longleftrightarrow> getSession st k = None"
  by (auto simp: getSession_def addMessage_def addMessage_store_def Let_def update_conv'
      split: option.splits)

lemma ai_invocations_append:
  "ai_invocations (xs @ ys) = ai_invocations xs + ai_invocations ys"
  by (simp add: ai_invocations_def)

lemma ai_invocations_Nil: "ai_invocations [] = 0"
  by (simp add: ai_invocations_def)

lemma ai_invocations_Cons:
  "ai_invocations (e # es) = (if is_GenerateResponse e then 1 else 0) + ai_invocations es"
  by (simp add: ai_invocations_def)

lemma trace_emit: "trace (emit es ss) = trace ss @ es"
  by (simp add: emit_def)

lemma sessionService_emit: "sessionService (emit es ss) = sessionService ss"
  by (simp add: emit_def)

lemma queueService_emit: "queueService (emit es ss) = queueService ss"
  by (simp add: emit_def)

lemma ai_invocations_generate:
  "ai_invocations (trace (generate_ai_response ai kb sessionId text now ss)) =
     ai_invocations (trace ss) + (if getSession (sessionService ss) sessionId = None then 0 else 1)"
  by (simp add: generate_ai_response_def Let_def trace_emit ai_invocations_append
      ai_invocations_Cons ai_invocations_Nil split: option.splits)

subsection \<open>Lookups in the staff store\<close>

lemma find_id_staff:
  "list_all (\<lambda>p. id_staff (snd p) = fst p) st \<Longrightarrow>
     find (\<lambda>s. id_staff s = i) (map snd st) = map_of st i"
  by (induction st) auto

lemma find_getAllStaff:
  "store_wf st \<Longrightarrow> find (\<lambda>s. id_staff s = i) (getAllStaff st) = findById st i"
  by (simp add: store_wf_def getAllStaff_def findById_def find_id_staff)

lemma findById_updateStaff:
  "findById (updateStaff st i upd now) k =
     (if k = i then map_option (\<lambda>s. (upd s)\<lparr>lastActive := now\<rparr>) (findById st i)
      else findById st k)"
  by (auto simp: findById_def updateStaff_def update_conv' split: option.splits)

lemma findById_unassignChat:
  "findById (snd (unassignChat st i now)) k =
     (if k = i
      then map_option (\<lambda>s. s\<lparr>currentChatCount := max 0 (currentChatCount s - 1),
                              lastActive := now\<rparr>) (findById st i)
      else findById st k)"
  by (auto simp: unassignChat_def findById_updateStaff split: option.splits)

lemma findById_load_ok:
  "load_inv st \<Longrightarrow> findById st i = Some s \<Longrightarrow> load_ok s"
  unfolding findById_def by (rule load_inv_lookup)

text \<open>
  After the capacity check of \<^verbatim>\<open>transferChat\<close> has passed, the increment on the target
  cannot fail, also when source and target are the same staff member.
\<close>

lemma assignChat_after_unassignChat:
  assumes "load_inv st" "findById st t = Some s"
    "currentChatCount s < maxConcurrentChats s"
  shows "fst (assignChat (snd (unassignChat st f now)) t now)"
proof -
  from assms(1,2) have "load_ok s" by (rule findById_load_ok)
  with assms(2,3) show ?thesis
    by (auto simp: assignChat_def findById_unassignChat load_ok_def)
qed

subsection \<open>The assignment ledger\<close>

lemma getAssignment_updateAssignmentStatus:
  "getAssignment asg sessionId = Some a \<Longrightarrow>
     getAssignment (snd (updateAssignmentStatus asg sessionId status)) k =
       (if k = sessionId then Some (a\<lparr>status_assignment := status\<rparr>) else getAssignment asg k)"
  by (simp add: getAssignment_def updateAssignmentStatus_def update_conv')

lemma updateAssignmentStatus_again:
  "getAssignment asg sessionId = Some a \<Longrightarrow> status_assignment a = status \<Longrightarrow>
     snd (updateAssignmentStatus asg sessionId status) = asg"
  by (simp add: getAssignment_def updateAssignmentStatus_def update_triv)

subsection \<open>The ledger stays keyed by session\<close>

lemma ledger_wf_update:
  "ledger_wf asg \<Longrightarrow> sessionId_assignment a = k \<Longrightarrow> ledger_wf (AList.update k a asg)"
  unfolding ledger_wf_def list_all_iff
  using set_update_subset [of k a asg] by (auto simp: distinct_update)

lemma ledger_wf_lookup:
  "ledger_wf asg \<Longrightarrow> map_of asg k = Some a \<Longrightarrow> sessionId_assignment a = k"
  unfolding ledger_wf_def list_all_iff
  by (metis map_of_SomeD fst_conv snd_conv)

lemma ledger_wf_assignSession:
  "ledger_wf asg \<Longrightarrow> ledger_wf (snd (assignSession asg sessionId staffId now))"
  by (simp add: assignSession_def Let_def ledger_wf_update)

lemma ledger_wf_updateAssignmentStatus:
  "ledger_wf asg \<Longrightarrow> ledger_wf (snd (updateAssignmentStatus asg sessionId status))"
  by (auto simp: updateAssignmentStatus_def split: option.splits
      intro!: ledger_wf_update dest: ledger_wf_lookup)

lemma ledger_wf_transfer:
  "ledger_wf asg \<Longrightarrow>
   ledger_wf (snd (updateAssignment asg sessionId
                (\<lambda>a. a\<lparr>staffId_assignment := t, assignedAt := now\<rparr>)))"
  by (auto simp: updateAssignment_def split: option.splits
      intro!: ledger_wf_update dest: ledger_wf_lookup)

lemma ledger_wf_assignNextChat:
  "ledger_wf (assignments qs) \<Longrightarrow> ledger_wf (assignments (snd (assignNextChat qs now)))"
  by (simp add: assignNextChat_def Let_def ledger_wf_assignSession split: list.splits)

lemma ledger_wf_step:
  "ledger_wf (assignments qs) \<Longrightarrow> ledger_wf (assignments (service_step qs c))"
proof (cases c)
  case (AddToQueue s p u n)
  then show "ledger_wf (assignments qs) \<Longrightarrow> ?thesis" by (simp add: addToQueue_def Let_def)
next
  case (RemoveFromQueue s)
  then show "ledger_wf (assignments qs) \<Longrightarrow> ?thesis" by (simp add: removeFromQueue_def Let_def)
next
  case (AssignNextChat n)
  then show "ledger_wf (assignments qs) \<Longrightarrow> ?thesis" by (simp add: ledger_wf_assignNextChat)
next
  case (AssignChatToStaff s t n)
  then show "ledger_wf (assignments qs) \<Longrightarrow> ?thesis"
    by (simp add: assignChatToStaff_def Let_def ledger_wf_assignSession split: option.splits)
next
  case (CompleteAssignment s n)
  then show "ledger_wf (assignments qs) \<Longrightarrow> ?thesis"
    by (simp add: completeAssignment_def ledger_wf_updateAssignmentStatus split: option.splits)
next
  case (TransferChat s f t n)
  then show "ledger_wf (assignments qs) \<Longrightarrow> ?thesis"
    by (simp add: transferChat_def Let_def ledger_wf_transfer split: option.splits)
next
  case (CheckAndAssign n)
  then show "ledger_wf (assignments qs) \<Longrightarrow> ?thesis"
    by (simp add: checkAndAssign_def ledger_wf_assignNextChat)
qed

lemma ledger_wf_run:
  "ledger_wf (assignments qs) \<Longrightarrow> ledger_wf (assignments (service_run qs cs))"
  unfolding service_run_def
  by (induction cs arbitrary: qs) (simp_all add: ledger_wf_step)

lemma filter_key_le_one:
  "distinct (map fst al) \<Longrightarrow> list_all (\<lambda>p. f (snd p) = fst p) al \<Longrightarrow>
     length (filter (\<lambda>v. f v = k \<and> P v) (map snd al)) \<le> 1"
proof (induction al)
  case Nil
  then show ?case by simp
next
  case (Cons p al)
  show ?case
  proof (cases "fst p = k")
    case True
    with Cons.prems have "\<forall>q\<in>set al. f (snd q) \<noteq> k"
      by (auto simp: list_all_iff) (metis fst_conv image_eqI)
    then have "filter (\<lambda>v. f v = k \<and> P v) (map snd al) = []"
      by (auto simp: filter_empty_conv)
    then show ?thesis by simp
  next
    case False
    with Cons show ?thesis by simp
  qed
qed

lemma open_assignments_le_one:
  "ledger_wf (assignments qs) \<Longrightarrow> length (open_assignments qs sessionId) \<le> 1"
  unfolding ledger_wf_def open_assignments_def
  by (rule filter_key_le_one) simp_all

subsection \<open>Load after an assignment\<close>

lemma findById_assignChat:
  "findById st i = Some s \<Longrightarrow> currentChatCount s < maxConcurrentChats s \<Longrightarrow>
     assignChat st i now = (True, updateStaff st i
                        (\<lambda>u. u\<lparr>currentChatCount := currentChatCount s + 1\<rparr>) now)"
  by (simp add: assignChat_def)

subsection \<open>Queue entries of a session\<close>

lemma update_fresh:
  "k \<notin> fst ` set al \<Longrightarrow> AList.update k v al = al @ [(k, v)]"
  by (induction al) auto

lemma length_filter_remove:
  "length (filter (\<lambda>item. sessionId_queue item = s)
             (map snd (snd (removeFromQueue_store q s))))
   = length (filter (\<lambda>item. sessionId_queue item = s) (map snd q)) - 1"
  by (induction q s rule: removeFromQueue_store.induct) auto

lemma length_queued_remove:
  "length (queued (snd (removeFromQueue qs s)) s) = length (queued qs s) - 1"
  using length_filter_remove [of s "queue qs"]
  by (simp add: queued_def removeFromQueue_def Let_def)

subsection \<open>The sorted queue\<close>

lemma js_insert_not_Nil: "js_insert cmp x ys \<noteq> []"
  by (cases ys) simp_all

lemma js_sort_Cons: "js_sort cmp (x # xs) = js_insert cmp x (js_sort cmp xs)"
  by (simp add: js_sort_def)

lemma js_sort_Nil_iff: "js_sort cmp xs = [] \<longleftrightarrow> xs = []"
  by (cases xs) (simp_all add: js_sort_def js_insert_not_Nil)

lemma set_js_insert: "set (js_insert cmp x ys) = insert x (set ys)"
  by (induction ys) auto

lemma set_js_sort: "set (js_sort cmp xs) = set xs"
  by (induction xs) (simp_all add: js_sort_def set_js_insert)

lemma js_sort_head:
  assumes total: "\<forall>a b. cmp a b \<le> 0 \<or> cmp b a \<le> 0"
    and trans: "\<forall>a b c. cmp a b \<le> 0 \<longrightarrow> cmp b c \<le> 0 \<longrightarrow> cmp a c \<le> 0"
  shows "js_sort cmp xs = h # rest \<Longrightarrow> x \<in> set xs \<Longrightarrow> cmp h x \<le> 0"
proof (induction xs arbitrary: h rest x)
  case Nil
  then show ?case by simp
next
  case (Cons a xs)
  show ?case
  proof (cases "js_sort cmp xs")
    case Nil
    then have "xs = []" by (simp add: js_sort_Nil_iff)
    with Cons.prems Nil total show ?thesis
      by (auto simp: js_sort_Cons)
  next
    case (Cons h' rest')
    note sorted_tail = this
    have ih: "\<And>y. y \<in> set xs \<Longrightarrow> cmp h' y \<le> 0"
      using Cons.IH [OF sorted_tail] .
    show ?thesis
    proof (cases "cmp a h' \<le> 0")
      case True
      with Cons.prems(1) sorted_tail have "h = a" by (simp add: js_sort_Cons)
      moreover have "cmp a a \<le> 0" using total by blast
      moreover have "\<And>y. y \<in> set xs \<Longrightarrow> cmp a y \<le> 0"
        using True ih trans by blast
      ultimately show ?thesis using Cons.prems(2) by auto
    next
      case False
      with Cons.prems(1) sorted_tail have "h = h'" by (simp add: js_sort_Cons)
      moreover have "cmp h' a \<le> 0" using False total by blast
      ultimately show ?thesis using Cons.prems(2) ih by auto
    qed
  qed
qed

lemma compareQueue_le:
  "compareQueue a b \<le> 0 \<longleftrightarrow>
     priorityOrder (priority_queue b) < priorityOrder (priority_queue a)
     \<or> (priorityOrder (priority_queue a) = priorityOrder (priority_queue b)
        \<and> createdAt_queue a \<le> createdAt_queue b)"
  by (auto simp: compareQueue_def)

lemma compareQueue_total: "\<forall>a b. compareQueue a b \<le> 0 \<or> compareQueue b a \<le> 0"
  by (auto simp: compareQueue_le)

lemma compareQueue_trans:
  "\<forall>a b c. compareQueue a b \<le> 0 \<longrightarrow> compareQueue b c \<le> 0 \<longrightarrow> compareQueue a c \<le> 0"
  by (auto simp: compareQueue_le)

lemma getQueue_head:
  assumes "getQueue qs now = nextChat # rest"
  shows "\<exists>e\<in>set (map snd (queue qs)).
           nextChat = e\<lparr>waitTime := (now - createdAt_queue e) div 1000\<rparr>"
    and "e \<in> set (map snd (queue qs)) \<Longrightarrow>
           priorityOrder (priority_queue e) \<le> priorityOrder (priority_queue nextChat)
           \<and> (priority_queue e = priority_queue nextChat
                \<longrightarrow> createdAt_queue nextChat \<le> createdAt_queue e)"
proof -
  let ?w = "\<lambda>item. item\<lparr>waitTime := (now - createdAt_queue item) div 1000\<rparr>"
  let ?xs = "map ?w (map snd (queue qs))"
  from assms have sorted: "js_sort compareQueue ?xs = nextChat # rest"
    by (simp add: getQueue_def getQueue_store_def)
  then have "nextChat \<in> set (js_sort compareQueue ?xs)" by simp
  then have "nextChat \<in> set ?xs" by (simp only: set_js_sort)
  then show "\<exists>e\<in>set (map snd (queue qs)).
           nextChat = e\<lparr>waitTime := (now - createdAt_queue e) div 1000\<rparr>"
    by auto
  assume "e \<in> set (map snd (queue qs))"
  then have "?w e \<in> set ?xs" by auto
  then have "compareQueue nextChat (?w e) \<le> 0"
    using js_sort_head [OF compareQueue_total compareQueue_trans sorted] by blast
  then show "priorityOrder (priority_queue e) \<le> priorityOrder (priority_queue nextChat)
           \<and> (priority_queue e = priority_queue nextChat
                \<longrightarrow> createdAt_queue nextChat \<le> createdAt_queue e)"
    by (auto simp: compareQueue_le)
qed

lemma getQueue_not_Nil: "queue qs \<noteq> [] \<Longrightarrow> getQueue qs now \<noteq> []"
  by (simp add: getQueue_def getQueue_store_def js_sort_Nil_iff)

text \<open>What a successful \<^verbatim>\<open>assignNextChat\<close> returns.\<close>

lemma assignNextChat_Inr:
  assumes "assignNextChat qs now = (Inr a, qs')"
  shows "\<exists>nextChat rest first others.
           getQueue qs now = nextChat # rest
         \<and> getAvailableStaff (staffService qs) = first # others
         \<and> a = \<lparr>sessionId_assignment = sessionId_queue nextChat,
                 staffId_assignment = id_staff (leastLoaded first others),
                 assignedAt = now, status_assignment = assigned\<rparr>
         \<and> assignments qs' = AList.update (sessionId_queue nextChat) a (assignments qs)"
  using assms
  by (auto simp: assignNextChat_def getQueue_def assignSession_def Let_def
      split: list.splits if_splits)

subsection \<open>The scenario low, high, medium\<close>

lemma scenario_low_high_medium:
  "dequeue_sessions [n1, n2, n3]
     (service_run qs_idle
        [AddToQueue ''S1'' low ''q1'' t1, AddToQueue ''S2'' high ''q2'' t2,
         AddToQueue ''S3'' medium ''q3'' t3])
   = [''S2'', ''S3'', ''S1'']"
  by (simp add: service_run_def qs_idle_def addToQueue_def addToQueue_store_def
      assignNextChat_def getQueue_store_def js_sort_def compareQueue_def priorityOrder_def
      getAvailableStaff_def getOnlineStaff_def leastLoaded_def assignChat_def findById_def
      updateStaff_def assignSession_def Let_def)

subsection \<open>Least-loaded selection\<close>

lemma leastLoaded_split:
  "\<exists>before after. first # others = before @ leastLoaded first others # after
     \<and> (\<forall>s\<in>set before. currentChatCount (leastLoaded first others) < currentChatCount s)
     \<and> (\<forall>s\<in>set after. currentChatCount (leastLoaded first others) \<le> currentChatCount s)"
proof (induction others rule: rev_induct)
  case Nil
  show ?case by (simp add: leastLoaded_def) (metis append_Nil empty_iff list.set(1))
next
  case (snoc current others)
  then obtain before after where
    split: "first # others = before @ leastLoaded first others # after"
    and b: "\<forall>s\<in>set before. currentChatCount (leastLoaded first others) < currentChatCount s"
    and a: "\<forall>s\<in>set after. currentChatCount (leastLoaded first others) \<le> currentChatCount s"
    by blast
  let ?best = "leastLoaded first others"
  show ?case
  proof (cases "currentChatCount current < currentChatCount ?best")
    case True
    then have new: "leastLoaded first (others @ [current]) = current"
      by (simp add: leastLoaded_def)
    have "\<forall>s\<in>set (first # others). currentChatCount current < currentChatCount s"
      using split b a True by (subst split) auto
    then show ?thesis
      unfolding new
      by (intro exI [of _ "first # others"] exI [of _ "[]"]) simp
  next
    case False
    then have new: "leastLoaded first (others @ [current]) = ?best"
      by (simp add: leastLoaded_def)
    show ?thesis
      unfolding new using split b a False
      by (intro exI [of _ before] exI [of _ "after @ [current]"]) auto
  qed
qed

lemma leastLoaded_mem: "leastLoaded first others \<in> set (first # others)"
  using leastLoaded_split [of first others] by (metis in_set_conv_decomp)

lemma getAvailableStaff_filter:
  "getAvailableStaff st =
     filter (\<lambda>s. status_staff s = online \<and> currentChatCount s < maxConcurrentChats s)
       (getAllStaff st)"
  by (simp add: getAvailableStaff_def getOnlineStaff_def getAllStaff_def conj_commute
      cong: conj_cong)

lemma findById_available:
  assumes "store_wf st" "s \<in> set (getAvailableStaff st)"
  shows "findById st (id_staff s) = Some s \<and> currentChatCount s < maxConcurrentChats s"
proof -
  from assms(2) obtain k where k: "(k, s) \<in> set st"
    and c: "currentChatCount s < maxConcurrentChats s"
    by (auto simp: getAvailableStaff_filter getAllStaff_def)
  from assms(1) k have "id_staff s = k"
    by (auto simp: store_wf_def list_all_iff)
  with assms(1) k c show ?thesis
    by (simp add: findById_def store_wf_def)
qed

lemma assignNextChat_succeeds:
  assumes "store_wf (staffService qs)" "queue qs \<noteq> []"
    "getAvailableStaff (staffService qs) \<noteq> []"
  shows "\<exists>a qs'. assignNextChat qs now = (Inr a, qs')"
proof -
  from assms(2) obtain nextChat rest where q: "getQueue_store (queue qs) now = nextChat # rest"
    using getQueue_not_Nil [of qs now] by (auto simp: getQueue_def neq_Nil_conv)
  from assms(3) obtain first others where
    av: "getAvailableStaff (staffService qs) = first # others"
    by (auto simp: neq_Nil_conv)
  have "leastLoaded first others \<in> set (getAvailableStaff (staffService qs))"
    unfolding av by (rule leastLoaded_mem)
  with assms(1) have
    "findById (staffService qs) (id_staff (leastLoaded first others))
       = Some (leastLoaded first others)
     \<and> currentChatCount (leastLoaded first others)
         < maxConcurrentChats (leastLoaded first others)"
    by (rule findById_available)
  then have "fst (assignChat (staffService qs) (id_staff (leastLoaded first others)) now)"
    by (simp add: assignChat_def)
  with q av show ?thesis
    by (simp add: assignNextChat_def Let_def)
qed

subsection \<open>Coordinator handlers\<close>

lemmas coordinator_eval =
  request_staff_def staff_status_update_def complete_chat_def assign_chat_def emit_def
  addToQueue_def addToQueue_store_def checkAndAssign_def getQueueStats_def
  getQueueLength_def getAverageWaitTime_def getQueue_store_def js_sort_def
  compareQueue_def priorityOrder_def getAvailableStaff_def getOnlineStaff_def
  updateSessionStatus_def getSession_def updateStatus_def updateStaff_def
  completeAssignment_def getAssignment_def updateAssignmentStatus_def unassignChat_def
  findById_def assignNextChat_def leastLoaded_def assignChat_def assignSession_def
  session_room_def truthy_def Let_def

lemma map_fst_update_present:
  "map_of al k = Some v \<Longrightarrow> map fst (AList.update k v' al) = map fst al"
  by (induction al) (auto split: if_splits)

lemma completeAssignment_keeps:
  "queue (snd (completeAssignment qs sessionId now)) = queue qs
   \<and> map fst (assignments (snd (completeAssignment qs sessionId now)))
       = map fst (assignments qs)"
  by (auto simp: completeAssignment_def getAssignment_def updateAssignmentStatus_def
      map_fst_update_present split: option.splits)

lemma getSession_updateSessionStatus:
  "session_wf st \<Longrightarrow>
     getSession (updateSessionStatus st sessionId status now) k =
       (if k = sessionId
        then map_option (\<lambda>s. s\<lparr>status_session := status, updatedAt := now\<rparr>)
               (getSession st sessionId)
        else getSession st k)"
proof -
  assume wf: "session_wf st"
  show ?thesis
  proof (cases "map_of st sessionId")
    case None
    then show ?thesis by (simp add: getSession_def updateSessionStatus_def)
  next
    case (Some s)
    with wf have "id_session s = sessionId"
      unfolding session_wf_def list_all_iff by (metis map_of_SomeD fst_conv snd_conv)
    with Some show ?thesis
      by (simp add: getSession_def updateSessionStatus_def update_conv')
  qed
qed

subsection \<open>Transfers that succeed, and what a dequeue removes\<close>

lemma transferChat_succeeds:
  assumes "store_wf (staffService qs)" "load_inv (staffService qs)"
    and "getAssignment (assignments qs) sessionId = Some a"
    and "findById (staffService qs) toStaffId = Some t"
    and "currentChatCount t < maxConcurrentChats t"
  shows "fst (transferChat qs sessionId (staffId_assignment a) toStaffId now) = Inr ()
    \<and> getAssignment
          (assignments (snd (transferChat qs sessionId (staffId_assignment a) toStaffId now)))
          sessionId
        = Some (a\<lparr>staffId_assignment := toStaffId, assignedAt := now\<rparr>)"
proof -
  from assms(2,4,5)
  have "fst (assignChat (snd (unassignChat (staffService qs) (staffId_assignment a) now))
               toStaffId now)"
    by (rule assignChat_after_unassignChat)
  with assms(1,3,4,5) show ?thesis
    by (simp add: transferChat_def find_getAllStaff Let_def updateAssignment_def
        getAssignment_def update_conv')
qed

lemma removeFromQueue_store_distinct:
  "distinct (map (\<lambda>p. sessionId_queue (snd p)) q) \<Longrightarrow>
     snd (removeFromQueue_store q s) = filter (\<lambda>p. sessionId_queue (snd p) \<noteq> s) q"
proof (induction q s rule: removeFromQueue_store.induct)
  case (1 s)
  show ?case by simp
next
  case (2 queueId item rest s)
  show ?case
  proof (cases "sessionId_queue item = s")
    case True
    with "2.prems" have "\<forall>p\<in>set rest. sessionId_queue (snd p) \<noteq> s"
      by (auto simp: image_iff)
    then have "filter (\<lambda>p. sessionId_queue (snd p) \<noteq> s) rest = rest"
      by (simp add: filter_id_conv)
    with True show ?thesis by simp
  next
    case False
    with 2 show ?thesis by simp
  qed
qed

lemma assignNextChat_queue:
  assumes "assignNextChat qs now = (Inr a, qs')"
  shows "queue qs' = snd (removeFromQueue_store (queue qs) (sessionId_assignment a))"
  using assms
  by (auto simp: assignNextChat_def assignSession_def Let_def split: list.splits if_splits)

section \<open>Claims\<close>

text \<open>
  C5. Starting from a directory in which every staff member has
  \<open>0 \<le> currentChatCount \<le> maxConcurrentChats\<close>, the bound holds for every staff member
  after every call of any sequence of \<^verbatim>\<open>assignChat\<close> and \<^verbatim>\<open>unassignChat\<close> calls
  (every prefix of the sequence); \<^verbatim>\<open>assignChat\<close> on a staff member whose count has
  reached the maximum returns false and leaves the store as it was; and the count that
  \<^verbatim>\<open>unassignChat\<close> leaves is neither below zero nor above the maximum.
\<close>

theorem C5_load_bounds:
  assumes "load_inv st"
  shows "(\<forall>n. load_inv (load_run st (take n cs)))
    \<and> (\<forall>s. findById st i = Some s \<and> currentChatCount s \<ge> maxConcurrentChats s
           \<longrightarrow> assignChat st i now = (False, st))
    \<and> (\<forall>s'. findById (snd (unassignChat st i now)) i = Some s'
           \<longrightarrow> 0 \<le> currentChatCount s' \<and> currentChatCount s' \<le> maxConcurrentChats s')"
proof (intro conjI allI impI)
  fix n show "load_inv (load_run st (take n cs))"
    using assms by (simp add: load_inv_run)
next
  fix s assume "findById st i = Some s \<and> currentChatCount s \<ge> maxConcurrentChats s"
  then show "assignChat st i now = (False, st)"
    by (simp add: assignChat_def)
next
  fix s' assume h: "findById (snd (unassignChat st i now)) i = Some s'"
  have "load_inv (snd (unassignChat st i now))"
    using assms by (rule load_inv_unassignChat)
  with h have "load_ok s'"
    unfolding findById_def by (rule load_inv_lookup [rotated])
  then show "0 \<le> currentChatCount s'" and "currentChatCount s' \<le> maxConcurrentChats s'"
    by (simp_all add: load_ok_def)
qed

theorem C5_load_bounds_witness:
  "load_inv ex_staff_full
   \<and> load_inv (load_run ex_staff_full (take 2 ex_load_calls))
   \<and> assignChat ex_staff_full ''A'' 9 = (False, ex_staff_full)"
proof -
  have h: "load_inv ex_staff_full"
    by (simp add: load_inv_def load_ok_def ex_staff_full_def)
  from C5_load_bounds [OF h, of ex_load_calls "''A''" 9] show ?thesis
    using h by (simp add: findById_def ex_staff_full_def)
qed

text \<open>
  C1 (as stated, refuted). The \<^verbatim>\<open>send_message\<close> handler never reads the status of the
  session: in a state where session S1 has status \<open>with_staff\<close> and an assignment to
  staff member A, a customer message on S1 calls \<^verbatim>\<open>generateResponse\<close> once.
\<close>

theorem C1_with_staff_counterexample:
  "map_option status_session (getSession (sessionService ss_with_staff) ''S1'')
     = Some with_staff
   \<and> ai_invocations (trace ss_with_staff) = 0
   \<and> ai_invocations
       (trace (send_message ai_ok kb_empty customer_socket ''S1'' ''hello'' customer 5
                 ss_with_staff)) = 1"
  by (simp add: ss_with_staff_def send_message_def generate_ai_response_def Let_def
      addMessage_def addMessage_store_def getSession_def getConversationHistory_def
      slice_last_def emit_def ai_ok_def kb_empty_def ai_invocations_def)

text \<open>
  C1 (amended). For every inbound message, the \<^verbatim>\<open>send_message\<close> handler calls the AI
  subsystem exactly once when the message has role customer and the session exists,
  whatever the status of the session, and not at all otherwise (a staff message, or a
  session that is not in the store).
\<close>

theorem C1_ai_called_for_every_status:
  "ai_invocations (trace (send_message ai kb socket sessionId text role now ss)) =
     ai_invocations (trace ss)
       + (if role = customer \<and> getSession (sessionService ss) sessionId \<noteq> None then 1 else 0)"
  by (cases role)
     (simp_all add: send_message_def Let_def trace_emit sessionService_emit
        ai_invocations_append ai_invocations_generate
        getSession_addMessage ai_invocations_Cons ai_invocations_Nil)

theorem C1_ai_called_for_every_status_witness:
  "ai_invocations
     (trace (send_message ai_ok kb_empty customer_socket ''S1'' ''hello'' customer 5
               ss_active)) = 1
   \<and> ai_invocations
     (trace (send_message ai_ok kb_empty staff_socket ''S1'' ''hello'' staff 5
               ss_active)) = 0"
  using C1_ai_called_for_every_status
          [of ai_ok kb_empty customer_socket "''S1''" "''hello''" customer 5 ss_active]
        C1_ai_called_for_every_status
          [of ai_ok kb_empty staff_socket "''S1''" "''hello''" staff 5 ss_active]
  by (simp add: ss_active_def getSession_def ai_invocations_def)

text \<open>
  C7. In a directory whose entries are keyed by their id and satisfy the capacity bound,
  \<^verbatim>\<open>transferChat\<close> fails with the mismatch error when the assignment of the session
  belongs to another staff member than \<open>fromStaffId\<close>, fails with the capacity error when
  the target is at capacity, and every failing transfer, whatever its error, returns the
  state it was given: the ledger, the queue and the load of every staff member are
  unchanged.
\<close>

theorem C7_failed_transfer_atomic:
  assumes "store_wf (staffService qs)" "load_inv (staffService qs)"
  shows
   "(\<forall>a. getAssignment (assignments qs) sessionId = Some a
         \<and> staffId_assignment a \<noteq> fromStaffId
       \<longrightarrow> transferChat qs sessionId fromStaffId toStaffId now
             = (Inl ''Assignment not found or staff mismatch'', qs))
    \<and> (\<forall>a t. getAssignment (assignments qs) sessionId = Some a
         \<and> staffId_assignment a = fromStaffId
         \<and> findById (staffService qs) toStaffId = Some t
         \<and> currentChatCount t \<ge> maxConcurrentChats t
       \<longrightarrow> transferChat qs sessionId fromStaffId toStaffId now
             = (Inl ''Target staff member at maximum capacity'', qs))
    \<and> (\<forall>e qs'. transferChat qs sessionId fromStaffId toStaffId now = (Inl e, qs')
       \<longrightarrow> qs' = qs)"
proof (intro conjI allI impI)
  fix a
  assume "getAssignment (assignments qs) sessionId = Some a
         \<and> staffId_assignment a \<noteq> fromStaffId"
  then show "transferChat qs sessionId fromStaffId toStaffId now
             = (Inl ''Assignment not found or staff mismatch'', qs)"
    by (simp add: transferChat_def)
next
  fix a t
  assume "getAssignment (assignments qs) sessionId = Some a
         \<and> staffId_assignment a = fromStaffId
         \<and> findById (staffService qs) toStaffId = Some t
         \<and> currentChatCount t \<ge> maxConcurrentChats t"
  then show "transferChat qs sessionId fromStaffId toStaffId now
             = (Inl ''Target staff member at maximum capacity'', qs)"
    using assms(1) by (simp add: transferChat_def find_getAllStaff)
next
  fix e qs'
  assume h: "transferChat qs sessionId fromStaffId toStaffId now = (Inl e, qs')"
  show "qs' = qs"
  proof (cases "getAssignment (assignments qs) sessionId")
    case None
    with h show ?thesis by (simp add: transferChat_def)
  next
    case (Some a)
    show ?thesis
    proof (cases "findById (staffService qs) toStaffId")
      case None
      with h Some assms(1) show ?thesis
        by (simp add: transferChat_def find_getAllStaff split: if_splits)
    next
      case (Some t)
      show ?thesis
      proof (cases "currentChatCount t < maxConcurrentChats t")
        case False
        with h \<open>getAssignment (assignments qs) sessionId = Some a\<close> Some assms(1)
        show ?thesis
          by (simp add: transferChat_def find_getAllStaff split: if_splits)
      next
        case True
        with assms(2) Some
        have "fst (assignChat (snd (unassignChat (staffService qs) fromStaffId now))
                     toStaffId now)"
          by (rule assignChat_after_unassignChat)
        with h \<open>getAssignment (assignments qs) sessionId = Some a\<close> Some assms(1) True
        show ?thesis
          by (simp add: transferChat_def find_getAllStaff Let_def split: if_splits)
      qed
    qed
  qed
qed

theorem C7_failed_transfer_atomic_witness:
  "store_wf (staffService qs_target_full) \<and> load_inv (staffService qs_target_full)
   \<and> transferChat qs_target_full ''S1'' ''A'' ''B'' 7
       = (Inl ''Target staff member at maximum capacity'', qs_target_full)
   \<and> transferChat qs_target_full ''S1'' ''B'' ''A'' 7
       = (Inl ''Assignment not found or staff mismatch'', qs_target_full)"
proof -
  have wf: "store_wf (staffService qs_target_full)"
    by (simp add: store_wf_def qs_target_full_def)
  have inv: "load_inv (staffService qs_target_full)"
    by (simp add: load_inv_def load_ok_def qs_target_full_def)
  from C7_failed_transfer_atomic [OF wf inv, of "''S1''" "''A''" "''B''" 7]
       C7_failed_transfer_atomic [OF wf inv, of "''S1''" "''B''" "''A''" 7]
  show ?thesis
    using wf inv by (simp add: getAssignment_def findById_def qs_target_full_def)
qed

text \<open>
  C2 (as stated, refuted). Staff member A holds two chats. Completing session S1 once
  leaves A with load 1; completing it twice in a row leaves A with load 0: the second
  call decrements again. A transfer of the completed session from A to B is carried out
  (it succeeds and raises the load of B to 1) instead of being a no-op.
\<close>

theorem C2_complete_twice_counterexample:
  "load_of (complete_once qs_two_chats ''S1'' 5) ''A'' = Some 1
   \<and> load_of (complete_twice qs_two_chats ''S1'' 5 6) ''A'' = Some 0
   \<and> fst (transferChat (complete_once qs_two_chats ''S1'' 5) ''S1'' ''A'' ''B'' 7) = Inr ()
   \<and> load_of (snd (transferChat (complete_once qs_two_chats ''S1'' 5) ''S1'' ''A'' ''B'' 7)) ''B''
       = Some 1"
  by (simp add: load_of_def complete_once_def complete_twice_def qs_two_chats_def
      completeAssignment_def getAssignment_def updateAssignmentStatus_def unassignChat_def
      findById_def updateStaff_def transferChat_def getAllStaff_def assignChat_def
      updateAssignment_def Let_def)

text \<open>
  C2 (amended). For a session that has an assignment, \<^verbatim>\<open>completeAssignment\<close> called
  twice in a row returns true both times, the assignment ends \<open>completed\<close>, the second
  call leaves the ledger as the first call left it and the queue is untouched; but each
  call decrements the load of the assigned staff member by one, floored at zero, so
  the load after two calls is \<open>max 0 (max 0 (c - 1) - 1)\<close>, one less than after a
  single call whenever the load was at least two. A transfer does not read the status
  of the assignment either: in a directory keyed by staff id that satisfies the capacity
  bound, a transfer from the holder of the assignment to a target below capacity
  succeeds and rewrites the holder of the ledger entry, whatever the status of the
  assignment, \<open>completed\<close> included.
\<close>

theorem C2_complete_twice:
  assumes "getAssignment (assignments qs) sessionId = Some a"
  shows "fst (completeAssignment qs sessionId now)
    \<and> fst (completeAssignment (complete_once qs sessionId now) sessionId now')
    \<and> getAssignment (assignments (complete_once qs sessionId now)) sessionId
        = Some (a\<lparr>status_assignment := completed\<rparr>)
    \<and> assignments (complete_twice qs sessionId now now')
        = assignments (complete_once qs sessionId now)
    \<and> queue (complete_twice qs sessionId now now') = queue qs
    \<and> (\<forall>s. findById (staffService qs) (staffId_assignment a) = Some s \<longrightarrow>
          load_of (complete_once qs sessionId now) (staffId_assignment a)
            = Some (max 0 (currentChatCount s - 1))
        \<and> load_of (complete_twice qs sessionId now now') (staffId_assignment a)
            = Some (max 0 (max 0 (currentChatCount s - 1) - 1)))
    \<and> (\<forall>t. store_wf (staffService qs) \<and> load_inv (staffService qs)
            \<and> findById (staffService qs) toStaffId = Some t
            \<and> currentChatCount t < maxConcurrentChats t \<longrightarrow>
          fst (transferChat qs sessionId (staffId_assignment a) toStaffId now) = Inr ()
        \<and> getAssignment
              (assignments
                 (snd (transferChat qs sessionId (staffId_assignment a) toStaffId now)))
              sessionId
            = Some (a\<lparr>staffId_assignment := toStaffId, assignedAt := now\<rparr>))"
proof -
  let ?asg1 = "snd (updateAssignmentStatus (assignments qs) sessionId completed)"
  have a1: "getAssignment ?asg1 sessionId = Some (a\<lparr>status_assignment := completed\<rparr>)"
    using assms by (simp add: getAssignment_updateAssignmentStatus)
  have once: "complete_once qs sessionId now =
      qs\<lparr>assignments := ?asg1,
         staffService := snd (unassignChat (staffService qs) (staffId_assignment a) now)\<rparr>"
    using assms by (simp add: complete_once_def completeAssignment_def)
  have again: "snd (updateAssignmentStatus ?asg1 sessionId completed) = ?asg1"
    using a1 by (rule updateAssignmentStatus_again) simp
  have twice: "complete_twice qs sessionId now now' =
      qs\<lparr>assignments := ?asg1,
         staffService := snd (unassignChat
            (snd (unassignChat (staffService qs) (staffId_assignment a) now))
            (staffId_assignment a) now')\<rparr>"
    using a1 again once
    by (simp add: complete_twice_def complete_once_def completeAssignment_def)
  have completion: "fst (completeAssignment qs sessionId now)
    \<and> fst (completeAssignment (complete_once qs sessionId now) sessionId now')
    \<and> getAssignment (assignments (complete_once qs sessionId now)) sessionId
        = Some (a\<lparr>status_assignment := completed\<rparr>)
    \<and> assignments (complete_twice qs sessionId now now')
        = assignments (complete_once qs sessionId now)
    \<and> queue (complete_twice qs sessionId now now') = queue qs
    \<and> (\<forall>s. findById (staffService qs) (staffId_assignment a) = Some s \<longrightarrow>
          load_of (complete_once qs sessionId now) (staffId_assignment a)
            = Some (max 0 (currentChatCount s - 1))
        \<and> load_of (complete_twice qs sessionId now now') (staffId_assignment a)
            = Some (max 0 (max 0 (currentChatCount s - 1) - 1)))"
    using assms a1
    by (simp add: once twice load_of_def findById_unassignChat completeAssignment_def)
  have transfer: "\<forall>t. store_wf (staffService qs) \<and> load_inv (staffService qs)
            \<and> findById (staffService qs) toStaffId = Some t
            \<and> currentChatCount t < maxConcurrentChats t \<longrightarrow>
          fst (transferChat qs sessionId (staffId_assignment a) toStaffId now) = Inr ()
        \<and> getAssignment
              (assignments
                 (snd (transferChat qs sessionId (staffId_assignment a) toStaffId now)))
              sessionId
            = Some (a\<lparr>staffId_assignment := toStaffId, assignedAt := now\<rparr>)"
    using transferChat_succeeds [OF _ _ assms] by blast
  from completion transfer show ?thesis by (intro conjI) blast+
qed

theorem C2_complete_twice_witness:
  "getAssignment (assignments qs_target_full) ''S1'' \<noteq> None
   \<and> fst (completeAssignment (complete_once qs_target_full ''S1'' 5) ''S1'' 6)
   \<and> load_of (complete_once qs_target_full ''S1'' 5) ''A'' = Some 0
   \<and> load_of (complete_twice qs_target_full ''S1'' 5 6) ''A'' = Some 0
   \<and> map_option status_assignment (getAssignment (assignments qs_completed) ''S1'')
       = Some completed
   \<and> store_wf (staffService qs_completed) \<and> load_inv (staffService qs_completed)
   \<and> fst (transferChat qs_completed ''S1'' ''A'' ''B'' 7) = Inr ()
   \<and> getAssignment (assignments (snd (transferChat qs_completed ''S1'' ''A'' ''B'' 7))) ''S1''
       = Some \<lparr>sessionId_assignment = ''S1'', staffId_assignment = ''B'',
                assignedAt = 7, status_assignment = completed\<rparr>"
proof -
  have h: "getAssignment (assignments qs_target_full) ''S1''
             = Some \<lparr>sessionId_assignment = ''S1'', staffId_assignment = ''A'',
                      assignedAt = 0, status_assignment = assigned\<rparr>"
    by (simp add: getAssignment_def qs_target_full_def)
  have c: "getAssignment (assignments qs_completed) ''S1''
             = Some \<lparr>sessionId_assignment = ''S1'', staffId_assignment = ''A'',
                      assignedAt = 0, status_assignment = completed\<rparr>"
    by (simp add: getAssignment_def qs_completed_def)
  have wf: "store_wf (staffService qs_completed)"
    by (simp add: store_wf_def qs_completed_def)
  have inv: "load_inv (staffService qs_completed)"
    by (simp add: load_inv_def load_ok_def qs_completed_def)
  have t: "findById (staffService qs_completed) ''B''
             = Some \<lparr>id_staff = ''B'', status_staff = online, lastActive = 0,
                      maxConcurrentChats = 1, currentChatCount = 0\<rparr>"
    by (simp add: findById_def qs_completed_def)
  from C2_complete_twice [OF h, of 5 6]
  have first: "fst (completeAssignment (complete_once qs_target_full ''S1'' 5) ''S1'' 6)
     \<and> load_of (complete_once qs_target_full ''S1'' 5) ''A'' = Some 0
     \<and> load_of (complete_twice qs_target_full ''S1'' 5 6) ''A'' = Some 0"
    by (simp add: findById_def qs_target_full_def)
  from C2_complete_twice [OF c, of 7 8 "''B''"] wf inv t
  have "fst (transferChat qs_completed ''S1'' ''A'' ''B'' 7) = Inr ()
    \<and> getAssignment (assignments (snd (transferChat qs_completed ''S1'' ''A'' ''B'' 7))) ''S1''
       = Some \<lparr>sessionId_assignment = ''S1'', staffId_assignment = ''B'',
                assignedAt = 7, status_assignment = completed\<rparr>"
    by simp
  with first h c wf inv show ?thesis by simp
qed

text \<open>
  C3 (as stated, refuted). Session S1 has a non-terminal assignment to staff member A.
  Creating an assignment of S1 to staff member B does not fail: it returns the new
  assignment, the ledger entry of S1 now names B, the load of B went from 0 to 1 and the
  load of A is still 2.
\<close>

theorem C3_create_counterexample:
  "open_assignments qs_two_chats ''S1''
     = [\<lparr>sessionId_assignment = ''S1'', staffId_assignment = ''A'',
          assignedAt = 0, status_assignment = assigned\<rparr>]
   \<and> fst (assignChatToStaff qs_two_chats ''S1'' ''B'' 9)
     = Inr \<lparr>sessionId_assignment = ''S1'', staffId_assignment = ''B'',
             assignedAt = 9, status_assignment = assigned\<rparr>
   \<and> getAssignment (assignments (snd (assignChatToStaff qs_two_chats ''S1'' ''B'' 9))) ''S1''
     = Some \<lparr>sessionId_assignment = ''S1'', staffId_assignment = ''B'',
             assignedAt = 9, status_assignment = assigned\<rparr>
   \<and> load_of qs_two_chats ''B'' = Some 0
   \<and> load_of (snd (assignChatToStaff qs_two_chats ''S1'' ''B'' 9)) ''B'' = Some 1
   \<and> load_of (snd (assignChatToStaff qs_two_chats ''S1'' ''B'' 9)) ''A'' = Some 2"
  by (simp add: open_assignments_def qs_two_chats_def assignChatToStaff_def getAllStaff_def
      assignChat_def findById_def updateStaff_def assignSession_def getAssignment_def
      load_of_def Let_def)

text \<open>
  C3 (amended). In a directory keyed by staff id and a ledger keyed by session,
  \<^verbatim>\<open>assignChatToStaff\<close> to a staff member who exists and is below capacity succeeds
  whether or not the session already has an assignment, to that staff member or to
  another: the ledger entry of the session is replaced by a fresh \<open>assigned\<close> entry for
  the staff member, whose load goes up by one, and the load of every other staff member
  (a previous holder included) is unchanged. Since the ledger has one entry per
  session, at most one non-completed assignment of a session exists after any sequence
  of calls of the queue service.
\<close>

theorem C3_create_overwrites:
  assumes "store_wf (staffService qs)" "ledger_wf (assignments qs)"
  shows
   "(\<forall>t. findById (staffService qs) staffId = Some t
          \<and> currentChatCount t < maxConcurrentChats t \<longrightarrow>
        fst (assignChatToStaff qs sessionId staffId now)
          = Inr \<lparr>sessionId_assignment = sessionId, staffId_assignment = staffId,
                  assignedAt = now, status_assignment = assigned\<rparr>
        \<and> getAssignment (assignments (snd (assignChatToStaff qs sessionId staffId now)))
            sessionId
          = Some \<lparr>sessionId_assignment = sessionId, staffId_assignment = staffId,
                   assignedAt = now, status_assignment = assigned\<rparr>
        \<and> load_of (snd (assignChatToStaff qs sessionId staffId now)) staffId
          = Some (currentChatCount t + 1)
        \<and> (\<forall>other. other \<noteq> staffId \<longrightarrow>
              load_of (snd (assignChatToStaff qs sessionId staffId now)) other
                = load_of qs other))
    \<and> (\<forall>cs s. length (open_assignments (service_run qs cs) s) \<le> 1)"
proof (intro conjI allI impI)
  fix t
  assume h: "findById (staffService qs) staffId = Some t
          \<and> currentChatCount t < maxConcurrentChats t"
  let ?a = "\<lparr>sessionId_assignment = sessionId, staffId_assignment = staffId,
                  assignedAt = now, status_assignment = assigned\<rparr>"
  have eq: "assignChatToStaff qs sessionId staffId now =
     (Inr ?a,
      qs\<lparr>staffService := updateStaff (staffService qs) staffId
             (\<lambda>u. u\<lparr>currentChatCount := currentChatCount t + 1\<rparr>) now,
         assignments := AList.update sessionId ?a (assignments qs),
         queue := snd (removeFromQueue_store (queue qs) sessionId)\<rparr>)"
    using h assms(1)
    by (simp add: assignChatToStaff_def find_getAllStaff findById_assignChat
        assignSession_def Let_def)
  show "fst (assignChatToStaff qs sessionId staffId now) = Inr ?a"
    by (simp add: eq)
  show "getAssignment (assignments (snd (assignChatToStaff qs sessionId staffId now)))
            sessionId = Some ?a"
    by (simp add: eq getAssignment_def update_conv')
  show "load_of (snd (assignChatToStaff qs sessionId staffId now)) staffId
          = Some (currentChatCount t + 1)"
    using h by (simp add: eq load_of_def findById_updateStaff)
  fix other assume "other \<noteq> staffId"
  then show "load_of (snd (assignChatToStaff qs sessionId staffId now)) other
                = load_of qs other"
    by (simp add: eq load_of_def findById_updateStaff)
next
  fix cs s
  from assms(2) have "ledger_wf (assignments (service_run qs cs))"
    by (rule ledger_wf_run)
  then show "length (open_assignments (service_run qs cs) s) \<le> 1"
    by (rule open_assignments_le_one)
qed

theorem C3_create_overwrites_witness:
  "store_wf (staffService qs_target_full) \<and> ledger_wf (assignments qs_target_full)
   \<and> fst (assignChatToStaff qs_target_full ''S1'' ''A'' 9)
       = Inr \<lparr>sessionId_assignment = ''S1'', staffId_assignment = ''A'',
               assignedAt = 9, status_assignment = assigned\<rparr>
   \<and> load_of qs_target_full ''A'' = Some 1
   \<and> load_of (snd (assignChatToStaff qs_target_full ''S1'' ''A'' 9)) ''A'' = Some 2
   \<and> length (open_assignments
               (service_run qs_target_full
                  [AssignChatToStaff ''S1'' ''A'' 9, CompleteAssignment ''S1'' 10]) ''S1'')
       \<le> 1"
proof -
  have wf: "store_wf (staffService qs_target_full)"
    by (simp add: store_wf_def qs_target_full_def)
  have lwf: "ledger_wf (assignments qs_target_full)"
    by (simp add: ledger_wf_def qs_target_full_def)
  from C3_create_overwrites [OF wf lwf, of "''A''" "''S1''" 9]
  show ?thesis
    using wf lwf by (simp add: findById_def load_of_def qs_target_full_def)
qed

text \<open>
  C4 (as stated, refuted). Session S1 is in the queue. \<^verbatim>\<open>addToQueue\<close> of S1 does not
  fail: it returns a new queue item, and the queue then holds two entries of S1.
\<close>

theorem C4_enqueue_counterexample:
  "queued qs_queued ''S1''
     = [\<lparr>id_queue = ''q1'', sessionId_queue = ''S1'', priority_queue = medium,
          waitTime = 0, createdAt_queue = 1\<rparr>]
   \<and> fst (addToQueue qs_queued ''S1'' high ''q2'' 2)
     = \<lparr>id_queue = ''q2'', sessionId_queue = ''S1'', priority_queue = high,
         waitTime = 0, createdAt_queue = 2\<rparr>
   \<and> queued (snd (addToQueue qs_queued ''S1'' high ''q2'' 2)) ''S1''
     = [\<lparr>id_queue = ''q1'', sessionId_queue = ''S1'', priority_queue = medium,
          waitTime = 0, createdAt_queue = 1\<rparr>,
        \<lparr>id_queue = ''q2'', sessionId_queue = ''S1'', priority_queue = high,
          waitTime = 0, createdAt_queue = 2\<rparr>]"
  by (simp add: queued_def qs_queued_def addToQueue_def addToQueue_store_def Let_def)

text \<open>
  C4 (amended). \<^verbatim>\<open>addToQueue\<close> has no failure: with a fresh identifier it returns the
  new item and appends it to the queue whether or not the session is already queued, so
  the number of queue entries of the session goes up by one on every call;
  \<^verbatim>\<open>removeFromQueue\<close> takes one entry of the session away (none when there is none).
\<close>

theorem C4_enqueue_always_adds:
  assumes "uuid \<notin> fst ` set (queue qs)"
  shows
   "fst (addToQueue qs sessionId prio uuid now)
      = \<lparr>id_queue = uuid, sessionId_queue = sessionId, priority_queue = prio,
          waitTime = 0, createdAt_queue = now\<rparr>
    \<and> queue (snd (addToQueue qs sessionId prio uuid now))
      = queue qs @ [(uuid, fst (addToQueue qs sessionId prio uuid now))]
    \<and> length (queued (snd (addToQueue qs sessionId prio uuid now)) sessionId)
      = length (queued qs sessionId) + 1
    \<and> length (queued (snd (removeFromQueue qs sessionId)) sessionId)
      = length (queued qs sessionId) - 1"
proof (intro conjI)
  show "fst (addToQueue qs sessionId prio uuid now)
      = \<lparr>id_queue = uuid, sessionId_queue = sessionId, priority_queue = prio,
          waitTime = 0, createdAt_queue = now\<rparr>"
    by (simp add: addToQueue_def addToQueue_store_def Let_def)
  show "queue (snd (addToQueue qs sessionId prio uuid now))
      = queue qs @ [(uuid, fst (addToQueue qs sessionId prio uuid now))]"
    using assms by (simp add: addToQueue_def addToQueue_store_def Let_def update_fresh)
  show "length (queued (snd (addToQueue qs sessionId prio uuid now)) sessionId)
      = length (queued qs sessionId) + 1"
    using assms
    by (simp add: addToQueue_def addToQueue_store_def Let_def update_fresh queued_def)
  show "length (queued (snd (removeFromQueue qs sessionId)) sessionId)
      = length (queued qs sessionId) - 1"
    by (rule length_queued_remove)
qed

theorem C4_enqueue_always_adds_witness:
  "''q2'' \<notin> fst ` set (queue qs_queued)
   \<and> length (queued qs_queued ''S1'') = 1
   \<and> length (queued (snd (addToQueue qs_queued ''S1'' medium ''q2'' 5)) ''S1'') = 2"
proof -
  have h: "''q2'' \<notin> fst ` set (queue qs_queued)"
    by (simp add: qs_queued_def)
  from C4_enqueue_always_adds [OF h, of "''S1''" medium 5] show ?thesis
    using h by (simp add: queued_def qs_queued_def)
qed

text \<open>
  C6. Whenever the queue is not empty the sorted queue has a head. The head is one of
  the stored entries (with its wait time filled in), no stored entry has a higher
  priority rank, and every stored entry of the same priority was enqueued at the same
  time or later. The assignment that a successful \<^verbatim>\<open>assignNextChat\<close> returns is for the
  session of that head, and when every session is queued once the call removes exactly
  the entry of that session from the queue. In particular: sessions S1, S2, S3 enqueued
  in that order with priorities low, high, medium (at any times) and dequeued three
  times (at any times) come out as S2, S3, S1.
\<close>

theorem C6_queue_order:
  "(queue qs \<noteq> [] \<longrightarrow> getQueue qs now \<noteq> [])
   \<and> (\<forall>nextChat rest. getQueue qs now = nextChat # rest \<longrightarrow>
         (\<exists>e\<in>set (map snd (queue qs)).
            nextChat = e\<lparr>waitTime := (now - createdAt_queue e) div 1000\<rparr>)
       \<and> (\<forall>e\<in>set (map snd (queue qs)).
            priorityOrder (priority_queue e) \<le> priorityOrder (priority_queue nextChat)
            \<and> (priority_queue e = priority_queue nextChat
                 \<longrightarrow> createdAt_queue nextChat \<le> createdAt_queue e)))
   \<and> (\<forall>a qs'. assignNextChat qs now = (Inr a, qs') \<longrightarrow>
         (\<exists>nextChat rest. getQueue qs now = nextChat # rest
            \<and> sessionId_assignment a = sessionId_queue nextChat)
       \<and> (distinct (map (\<lambda>p. sessionId_queue (snd p)) (queue qs)) \<longrightarrow>
            queue qs' = filter (\<lambda>p. sessionId_queue (snd p) \<noteq> sessionId_assignment a)
                          (queue qs)))
   \<and> dequeue_sessions [n1, n2, n3]
        (service_run qs_idle
           [AddToQueue ''S1'' low ''q1'' t1, AddToQueue ''S2'' high ''q2'' t2,
            AddToQueue ''S3'' medium ''q3'' t3])
      = [''S2'', ''S3'', ''S1'']"
proof (intro conjI allI impI ballI)
  assume "queue qs \<noteq> []"
  then show "getQueue qs now \<noteq> []" by (rule getQueue_not_Nil)
next
  fix nextChat rest assume "getQueue qs now = nextChat # rest"
  then show "\<exists>e\<in>set (map snd (queue qs)).
            nextChat = e\<lparr>waitTime := (now - createdAt_queue e) div 1000\<rparr>"
    by (rule getQueue_head(1))
next
  fix nextChat rest e
  assume "getQueue qs now = nextChat # rest" "e \<in> set (map snd (queue qs))"
  then have "priorityOrder (priority_queue e) \<le> priorityOrder (priority_queue nextChat)
            \<and> (priority_queue e = priority_queue nextChat
                 \<longrightarrow> createdAt_queue nextChat \<le> createdAt_queue e)"
    by (rule getQueue_head(2))
  then show "priorityOrder (priority_queue e) \<le> priorityOrder (priority_queue nextChat)"
    and "priority_queue e = priority_queue nextChat
                 \<Longrightarrow> createdAt_queue nextChat \<le> createdAt_queue e"
    by simp_all
next
  fix a qs' assume "assignNextChat qs now = (Inr a, qs')"
  from assignNextChat_Inr [OF this]
  show "\<exists>nextChat rest. getQueue qs now = nextChat # rest
            \<and> sessionId_assignment a = sessionId_queue nextChat"
    by auto
next
  fix a qs'
  assume "assignNextChat qs now = (Inr a, qs')"
    and "distinct (map (\<lambda>p. sessionId_queue (snd p)) (queue qs))"
  then show "queue qs' = filter (\<lambda>p. sessionId_queue (snd p) \<noteq> sessionId_assignment a)
                          (queue qs)"
    by (simp add: assignNextChat_queue removeFromQueue_store_distinct)
next
  show "dequeue_sessions [n1, n2, n3]
        (service_run qs_idle
           [AddToQueue ''S1'' low ''q1'' t1, AddToQueue ''S2'' high ''q2'' t2,
            AddToQueue ''S3'' medium ''q3'' t3])
      = [''S2'', ''S3'', ''S1'']"
    by (rule scenario_low_high_medium)
qed

theorem C6_queue_order_witness:
  "queue qs_mixed \<noteq> []
   \<and> map sessionId_queue (getQueue qs_mixed 5000) = [''S3'', ''S2'', ''S1'']
   \<and> map_sum id sessionId_assignment (fst (assignNextChat qs_mixed 5000)) = Inr ''S3''
   \<and> distinct (map (\<lambda>p. sessionId_queue (snd p)) (queue qs_mixed))
   \<and> map fst (queue (snd (assignNextChat qs_mixed 5000))) = [''q1'', ''q2'']"
  using C6_queue_order [of qs_mixed 5000]
  by (simp add: qs_mixed_def getQueue_def getQueue_store_def js_sort_def compareQueue_def
      priorityOrder_def assignNextChat_def getAvailableStaff_def getOnlineStaff_def
      leastLoaded_def assignChat_def findById_def updateStaff_def assignSession_def Let_def)

text \<open>
  C9. The candidate pool of \<^verbatim>\<open>assignNextChat\<close> is exactly the list of staff members,
  in the order of the directory, whose status is online and whose count is below their
  maximum. A successful \<^verbatim>\<open>assignNextChat\<close> assigns to a member \<open>best\<close> of the pool such
  that every candidate before it has a strictly larger count and every candidate after
  it has a count at least as large: the least loaded, and the first of the pool among
  the equally loaded. In a directory keyed by staff id the call succeeds whenever the
  queue and the pool are both non-empty.
\<close>

theorem C9_least_loaded:
  "getAvailableStaff (staffService qs) =
     filter (\<lambda>s. status_staff s = online \<and> currentChatCount s < maxConcurrentChats s)
       (getAllStaff (staffService qs))
   \<and> (\<forall>a qs'. assignNextChat qs now = (Inr a, qs') \<longrightarrow>
        (\<exists>before best after.
            getAvailableStaff (staffService qs) = before @ best # after
          \<and> staffId_assignment a = id_staff best
          \<and> (\<forall>s\<in>set before. currentChatCount best < currentChatCount s)
          \<and> (\<forall>s\<in>set after. currentChatCount best \<le> currentChatCount s)))
   \<and> (store_wf (staffService qs) \<and> queue qs \<noteq> []
        \<and> getAvailableStaff (staffService qs) \<noteq> []
      \<longrightarrow> (\<exists>a qs'. assignNextChat qs now = (Inr a, qs')))"
proof (intro conjI allI impI)
  show "getAvailableStaff (staffService qs) =
     filter (\<lambda>s. status_staff s = online \<and> currentChatCount s < maxConcurrentChats s)
       (getAllStaff (staffService qs))"
    by (rule getAvailableStaff_filter)
next
  fix a qs' assume "assignNextChat qs now = (Inr a, qs')"
  from assignNextChat_Inr [OF this] obtain first others where
    av: "getAvailableStaff (staffService qs) = first # others"
    and a: "staffId_assignment a = id_staff (leastLoaded first others)"
    by auto
  from leastLoaded_split [of first others] av a
  show "\<exists>before best after.
            getAvailableStaff (staffService qs) = before @ best # after
          \<and> staffId_assignment a = id_staff best
          \<and> (\<forall>s\<in>set before. currentChatCount best < currentChatCount s)
          \<and> (\<forall>s\<in>set after. currentChatCount best \<le> currentChatCount s)"
    by auto
next
  assume "store_wf (staffService qs) \<and> queue qs \<noteq> []
        \<and> getAvailableStaff (staffService qs) \<noteq> []"
  then show "\<exists>a qs'. assignNextChat qs now = (Inr a, qs')"
    by (simp add: assignNextChat_succeeds)
qed

theorem C9_least_loaded_witness:
  "store_wf (staffService qs_mixed) \<and> queue qs_mixed \<noteq> []
   \<and> map id_staff (getAvailableStaff (staffService qs_mixed)) = [''A'', ''B'', ''D'']
   \<and> map currentChatCount (getAvailableStaff (staffService qs_mixed)) = [2, 1, 1]
   \<and> map_sum id staffId_assignment (fst (assignNextChat qs_mixed 5000)) = Inr ''B''"
  using C9_least_loaded [of qs_mixed 5000]
  by (simp add: qs_mixed_def store_wf_def getAllStaff_def getQueue_store_def js_sort_def compareQueue_def
      priorityOrder_def assignNextChat_def getAvailableStaff_def getOnlineStaff_def
      leastLoaded_def assignChat_def findById_def updateStaff_def assignSession_def Let_def)

text \<open>
  C8 (as stated, refuted). Session S1 was queued with status \<open>waiting_for_staff\<close> while
  no staff member was available. After the \<^verbatim>\<open>staff_status_update\<close> that sets staff
  member A online, A is available, yet S1 is still in the queue, still
  \<open>waiting_for_staff\<close>, and the ledger is empty. Likewise after a \<^verbatim>\<open>complete_chat\<close> that
  frees the only slot of A while S1 and S2 wait: A is available, both sessions are still
  queued and the ledger holds only the completed assignment.
\<close>

theorem C8_no_auto_assign_counterexample:
  "queued_sessions ss_waiting = [''S1'']
   \<and> status_of ss_waiting ''S1'' = Some waiting_for_staff
   \<and> available_ids ss_waiting = []
   \<and> assignments (queueService ss_waiting) = []
   \<and> available_ids ss_online = [''A'']
   \<and> queued_sessions ss_online = [''S1'']
   \<and> assignments (queueService ss_online) = []
   \<and> status_of ss_online ''S1'' = Some waiting_for_staff
   \<and> available_ids ss_two_waiting = []
   \<and> available_ids ss_after_complete = [''A'']
   \<and> queued_sessions ss_after_complete = [''S1'', ''S2'']
   \<and> map fst (assignments (queueService ss_after_complete)) = [''S0'']"
  by (simp add: ss_waiting_def ss_online_def ss_after_complete_def ss_two_waiting_def
      ss_active_def customer_socket_def staff_socket_def queued_sessions_def status_of_def
      available_ids_def coordinator_eval)

text \<open>
  C8 (amended). Of the socket handlers, only \<^verbatim>\<open>request_staff\<close> invokes the
  auto-assignment routine: the queue service it leaves is \<^verbatim>\<open>checkAndAssign\<close> applied
  after the enqueue. \<^verbatim>\<open>staff_status_update\<close> leaves the queue, the ledger and the
  sessions as they were, and \<^verbatim>\<open>complete_chat\<close> leaves the queue as it was and adds no
  entry to the ledger.
\<close>

theorem C8_auto_assign_only_on_request:
  "queue (queueService (staff_status_update socket status now ss)) = queue (queueService ss)
   \<and> assignments (queueService (staff_status_update socket status now ss))
       = assignments (queueService ss)
   \<and> sessionService (staff_status_update socket status now ss) = sessionService ss
   \<and> queue (queueService (complete_chat socket sessionId now ss)) = queue (queueService ss)
   \<and> map fst (assignments (queueService (complete_chat socket sessionId now ss)))
       = map fst (assignments (queueService ss))
   \<and> queueService (request_staff socket sessionId prio uuid now ss)
       = checkAndAssign
           (snd (addToQueue (queueService ss) sessionId
                   (case prio of None \<Rightarrow> medium | Some p \<Rightarrow> p) uuid now)) now"
  by (simp add: staff_status_update_def complete_chat_def request_staff_def emit_def
      completeAssignment_keeps Let_def split: option.splits)

theorem C8_auto_assign_only_on_request_witness:
  "queue (queueService (staff_status_update staff_socket online 2 ss_two_waiting))
     = queue (queueService ss_two_waiting)
   \<and> available_ids ss_active = []
   \<and> queued_sessions (request_staff customer_socket ''S1'' (Some high) ''q1'' 1 ss_active)
     = [''S1'']"
  using C8_auto_assign_only_on_request
          [where socket = staff_socket and status = online and now = 2
             and ss = ss_two_waiting]
        C8_auto_assign_only_on_request
          [where socket = customer_socket and sessionId = "''S1''" and prio = "Some high"
             and uuid = "''q1''" and now = 1 and ss = ss_active]
  by (simp add: ss_active_def queued_sessions_def available_ids_def addToQueue_def
      addToQueue_store_def checkAndAssign_def getQueueStats_def getQueueLength_def
      getAvailableStaff_def getOnlineStaff_def Let_def)

text \<open>
  C10. In the \<^verbatim>\<open>assign_chat\<close> handler, on a staff socket and without a staff id, when
  auto-assignment succeeds: the assignment it created (and recorded in the ledger) is
  for the session of the head of the sorted queue, while the handler sets the status of
  the session named in the event to \<open>with_staff\<close> (when that session exists), emits
  \<^verbatim>\<open>staff_joined\<close> to the room of the event's session and \<^verbatim>\<open>chat_assigned\<close> with the
  event's session id to the socket of the assigned staff member. So when the event's
  session is not the head of the queue, the session of the assignment differs from the
  session that was marked and notified, and the status of the head's session is
  unchanged.
\<close>

theorem C10_auto_assign_marks_event_session:
  assumes "role_socket socket = Some staff" "\<not> truthy staffId"
    and "assignNextChat (queueService ss) now = (Inr a, qs')"
    and "session_wf (sessionService ss)"
  shows "\<exists>nextChat rest.
      getQueue (queueService ss) now = nextChat # rest
    \<and> sessionId_assignment a = sessionId_queue nextChat
    \<and> queueService (assign_chat socket sessionId staffId now ss) = qs'
    \<and> getAssignment (assignments qs') (sessionId_queue nextChat) = Some a
    \<and> status_of (assign_chat socket sessionId staffId now ss) sessionId
        = map_option (\<lambda>s. with_staff) (status_of ss sessionId)
    \<and> Emit (IoTo (session_room sessionId)) (staff_joined (staffId_assignment a))
        \<in> set (trace (assign_chat socket sessionId staffId now ss))
    \<and> (\<forall>staffSocketId. map_of (staffSockets ss) (staffId_assignment a) = Some staffSocketId
           \<and> staffSocketId \<noteq> [] \<longrightarrow>
         Emit (IoTo staffSocketId) (chat_assigned sessionId a)
           \<in> set (trace (assign_chat socket sessionId staffId now ss)))
    \<and> (sessionId \<noteq> sessionId_queue nextChat \<longrightarrow>
          sessionId_assignment a \<noteq> sessionId
        \<and> status_of (assign_chat socket sessionId staffId now ss) (sessionId_queue nextChat)
            = status_of ss (sessionId_queue nextChat))"
proof -
  from assignNextChat_Inr [OF assms(3)] obtain nextChat rest where
    q: "getQueue (queueService ss) now = nextChat # rest"
    and a: "sessionId_assignment a = sessionId_queue nextChat"
    and l: "assignments qs' = AList.update (sessionId_queue nextChat) a
                                (assignments (queueService ss))"
    by auto
  have result: "(case staffId of
                   None \<Rightarrow> assignNextChat (queueService ss) now
                 | Some i \<Rightarrow>
                     if i \<noteq> [] then assignChatToStaff (queueService ss) sessionId i now
                     else assignNextChat (queueService ss) now) = (Inr a, qs')"
    using assms(2,3) by (simp add: truthy_def split: option.splits)
  let ?ss' = "assign_chat socket sessionId staffId now ss"
  have qs: "queueService ?ss' = qs'"
    and sess: "sessionService ?ss'
                = updateSessionStatus (sessionService ss) sessionId with_staff now"
    and tr: "trace ?ss' = trace ss
       @ (case map_of (staffSockets ss) (staffId_assignment a) of
            None \<Rightarrow> []
          | Some staffSocketId \<Rightarrow>
              if staffSocketId \<noteq> []
              then [Emit (IoTo staffSocketId) (chat_assigned sessionId a)] else [])
       @ [Emit (IoTo (session_room sessionId)) (staff_joined (staffId_assignment a)),
          Emit (IoTo ''staff'') queue_updated]"
    using assms(1) by (simp_all add: assign_chat_def result emit_def Let_def)
  have "getAssignment (assignments qs') (sessionId_queue nextChat) = Some a"
    by (simp add: l getAssignment_def update_conv')
  moreover have "status_of ?ss' sessionId = map_option (\<lambda>s. with_staff) (status_of ss sessionId)"
    using assms(4)
    by (simp add: status_of_def sess getSession_updateSessionStatus option.map_comp comp_def)
  moreover have "sessionId \<noteq> sessionId_queue nextChat \<Longrightarrow>
      status_of ?ss' (sessionId_queue nextChat) = status_of ss (sessionId_queue nextChat)"
    using assms(4) by (simp add: status_of_def sess getSession_updateSessionStatus)
  ultimately show ?thesis
    using q a qs by (intro exI [of _ nextChat] exI [of _ rest]) (auto simp: tr)
qed


theorem C10_auto_assign_marks_event_session_witness:
  "role_socket staff_socket = Some staff \<and> \<not> truthy None
   \<and> session_wf (sessionService ss_after_complete)
   \<and> map sessionId_queue (getQueue (queueService ss_after_complete) 10) = [''S1'', ''S2'']
   \<and> fst (assignNextChat (queueService ss_after_complete) 10)
       = Inr \<lparr>sessionId_assignment = ''S1'', staffId_assignment = ''A'',
               assignedAt = 10, status_assignment = assigned\<rparr>
   \<and> status_of (assign_chat staff_socket ''S2'' None 10 ss_after_complete) ''S2''
       = Some with_staff
   \<and> status_of (assign_chat staff_socket ''S2'' None 10 ss_after_complete) ''S1''
       = Some waiting_for_staff"
proof -
  have r: "role_socket staff_socket = Some staff" by (simp add: staff_socket_def)
  have t: "\<not> truthy None" by (simp add: truthy_def)
  have st: "ss_after_complete =
     \<lparr>queueService =
        \<lparr>staffService =
           [(''A'', \<lparr>id_staff = ''A'', status_staff = online, lastActive = 9,
                     maxConcurrentChats = 1, currentChatCount = 0\<rparr>)],
         queue =
           [(''q1'', \<lparr>id_queue = ''q1'', sessionId_queue = ''S1'',
                      priority_queue = high, waitTime = 0, createdAt_queue = 1\<rparr>),
            (''q2'', \<lparr>id_queue = ''q2'', sessionId_queue = ''S2'',
                      priority_queue = low, waitTime = 0, createdAt_queue = 2\<rparr>)],
         assignments =
           [(''S0'', \<lparr>sessionId_assignment = ''S0'', staffId_assignment = ''A'',
                      assignedAt = 0, status_assignment = completed\<rparr>)]\<rparr>,
      sessionService =
        [(''S0'', \<lparr>id_session = ''S0'', messages = [], status_session = resolved,
                   updatedAt = 9\<rparr>),
         (''S1'', \<lparr>id_session = ''S1'', messages = [], status_session = waiting_for_staff,
                   updatedAt = 1\<rparr>),
         (''S2'', \<lparr>id_session = ''S2'', messages = [], status_session = waiting_for_staff,
                   updatedAt = 2\<rparr>)],
      staffSockets = [(''A'', ''sockA'')],
      trace = [Emit (IoTo ''session_S0'') chat_completed,
               Emit SocketEmit (chat_completed_confirmed ''S0''),
               Emit (IoTo ''staff'') queue_updated]\<rparr>"
    by (simp add: ss_after_complete_def ss_two_waiting_def staff_socket_def coordinator_eval)
  have wf: "session_wf (sessionService ss_after_complete)"
    by (simp add: st session_wf_def)
  have nf: "fst (assignNextChat (queueService ss_after_complete) 10) =
     Inr \<lparr>sessionId_assignment = ''S1'', staffId_assignment = ''A'',
               assignedAt = 10, status_assignment = assigned\<rparr>"
    by (simp add: st coordinator_eval)
  then have n: "assignNextChat (queueService ss_after_complete) 10 =
     (Inr \<lparr>sessionId_assignment = ''S1'', staffId_assignment = ''A'',
               assignedAt = 10, status_assignment = assigned\<rparr>,
      snd (assignNextChat (queueService ss_after_complete) 10))"
    by (metis prod.collapse)
  have q: "map sessionId_queue (getQueue (queueService ss_after_complete) 10) = [''S1'', ''S2'']"
    by (simp add: st getQueue_def coordinator_eval)
  from C10_auto_assign_marks_event_session [OF r t n wf, of "''S2''"]
  obtain nextChat rest where
    g: "getQueue (queueService ss_after_complete) 10 = nextChat # rest"
    and s2: "status_of (assign_chat staff_socket ''S2'' None 10 ss_after_complete) ''S2''
              = map_option (\<lambda>s. with_staff) (status_of ss_after_complete ''S2'')"
    and other: "''S2'' \<noteq> sessionId_queue nextChat \<longrightarrow>
       status_of (assign_chat staff_socket ''S2'' None 10 ss_after_complete)
         (sessionId_queue nextChat)
       = status_of ss_after_complete (sessionId_queue nextChat)"
    by blast
  from g q have head: "sessionId_queue nextChat = ''S1''" by simp
  have before: "status_of ss_after_complete ''S2'' = Some waiting_for_staff"
    "status_of ss_after_complete ''S1'' = Some waiting_for_staff"
    by (simp_all add: st status_of_def getSession_def)
  from s2 other head before r t wf q nf show ?thesis by simp
qed

end
